theory Spec2Isabelle
  imports Main "HOL-Library.Monad_Syntax"
begin

section \<open>Go values the client works with\<close>

text \<open>
  The client of \<^verbatim>\<open>package client\<close> is embedded function by function. A Go
  \<^verbatim>\<open>string\<close> is a sequence of bytes, here a \<^typ>\<open>string\<close> (characters are 8-bit).
  \<^verbatim>\<open>int\<close> and \<^verbatim>\<open>int64\<close> values are only compared and printed by the client, never
  computed with, so they are integers.
\<close>

subsection \<open>Errors\<close>

text \<open>
  An \<^verbatim>\<open>error\<close> built by \<^verbatim>\<open>fmt.Errorf\<close>: without \<^verbatim>\<open>%w\<close> it is a message, with
  \<^verbatim>\<open>%w\<close> it is a message that also keeps the wrapped cause.
\<close>

datatype go_error = ErrorString string | WrapError string go_error

fun Error :: "go_error \<Rightarrow> string" where
  "Error (ErrorString s) = s"
| "Error (WrapError m e) = m"

text \<open>\<^verbatim>\<open>fmt.Errorf(prefix + "%w", err)\<close>\<close>

definition Errorf_w :: "string \<Rightarrow> go_error \<Rightarrow> go_error" where
  "Errorf_w pre e = WrapError (pre @ Error e) e"

subsection \<open>Formatting with \<^verbatim>\<open>%d\<close>\<close>

definition digit_char :: "nat \<Rightarrow> char" where
  "digit_char n = ''0123456789'' ! n"

fun digits :: "nat \<Rightarrow> string" where
  "digits n = (if n < 10 then [digit_char n] else digits (n div 10) @ [digit_char (n mod 10)])"

declare digits.simps [simp del]

definition Sprint_d :: "int \<Rightarrow> string" where
  "Sprint_d i = (if i < 0 then CHR ''-'' # digits (nat (- i)) else digits (nat i))"

subsection \<open>Functions of package \<^verbatim>\<open>strings\<close>\<close>

text \<open>\<^verbatim>\<open>strings.Contains(s, substr)\<close>: \<^verbatim>\<open>substr\<close> occurs in \<^verbatim>\<open>s\<close> as a run of bytes.\<close>

fun HasPrefix :: "string \<Rightarrow> string \<Rightarrow> bool" where
  "HasPrefix s [] = True"
| "HasPrefix [] (p # ps) = False"
| "HasPrefix (c # cs) (p # ps) = (c = p \<and> HasPrefix cs ps)"

fun Contains :: "string \<Rightarrow> string \<Rightarrow> bool" where
  "Contains [] substr = (substr = [])"
| "Contains (c # cs) substr = (HasPrefix (c # cs) substr \<or> Contains cs substr)"

text \<open>
  \<^verbatim>\<open>strings.Split(s, sep)\<close> for a separator of one byte (the client splits at
  \<^verbatim>\<open>"\n"\<close>): the pieces between the separators, an empty string giving one empty piece.
\<close>

fun Split :: "string \<Rightarrow> char \<Rightarrow> string list" where
  "Split [] sep = [[]]"
| "Split (c # cs) sep =
     (if c = sep then [] # Split cs sep
      else (case Split cs sep of [] \<Rightarrow> [[c]] | l # ls \<Rightarrow> (c # l) # ls))"

text \<open>\<^verbatim>\<open>strings.TrimRight(s, cutset)\<close> and \<^verbatim>\<open>strings.Trim(s, cutset)\<close> for a cutset of
  one-byte characters.\<close>

definition TrimRight :: "string \<Rightarrow> string \<Rightarrow> string" where
  "TrimRight s cutset = rev (dropWhile (\<lambda>c. c \<in> set cutset) (rev s))"

definition Trim :: "string \<Rightarrow> string \<Rightarrow> string" where
  "Trim s cutset = TrimRight (dropWhile (\<lambda>c. c \<in> set cutset) s) cutset"

subsection \<open>\<^verbatim>\<open>strings.Fields\<close>\<close>

text \<open>
  \<^verbatim>\<open>strings.Fields\<close> cuts a string at runs of white space as \<^verbatim>\<open>unicode.IsSpace\<close>
  defines it, so it reads the string rune by rune. \<^verbatim>\<open>DecodeRune\<close> is the decoding
  of the first UTF-8 sequence of a string (\<^verbatim>\<open>utf8.DecodeRuneInString\<close>): the rune and the
  number of bytes it takes; a byte that starts no valid sequence is the rune
  \<^verbatim>\<open>U+FFFD\<close> of width 1.
\<close>

definition byte :: "char \<Rightarrow> nat" where
  "byte c = of_char c"

definition RuneError :: nat where
  "RuneError = 0xFFFD"

definition cont :: "char \<Rightarrow> bool" where
  "cont c = (0x80 \<le> byte c \<and> byte c \<le> 0xBF)"

text \<open>The range the second byte of a sequence must lie in, by its first byte.\<close>

definition accept_lo :: "nat \<Rightarrow> nat" where
  "accept_lo b0 = (if b0 = 0xE0 then 0xA0 else if b0 = 0xF0 then 0x90 else 0x80)"

definition accept_hi :: "nat \<Rightarrow> nat" where
  "accept_hi b0 = (if b0 = 0xED then 0x9F else if b0 = 0xF4 then 0x8F else 0xBF)"

fun DecodeRune :: "string \<Rightarrow> nat \<times> nat" where
  "DecodeRune [] = (RuneError, 0)"
| "DecodeRune (c0 # cs) =
     (if byte c0 < 0x80 then (byte c0, 1)
      else if 0xC2 \<le> byte c0 \<and> byte c0 \<le> 0xDF then
        (case cs of
           c1 # _ \<Rightarrow>
             if cont c1 then ((byte c0 mod 32) * 64 + byte c1 mod 64, 2) else (RuneError, 1)
         | _ \<Rightarrow> (RuneError, 1))
      else if 0xE0 \<le> byte c0 \<and> byte c0 \<le> 0xEF then
        (case cs of
           c1 # c2 # _ \<Rightarrow>
             if accept_lo (byte c0) \<le> byte c1 \<and> byte c1 \<le> accept_hi (byte c0) \<and> cont c2
             then ((byte c0 mod 16) * 4096 + (byte c1 mod 64) * 64 + byte c2 mod 64, 3)
             else (RuneError, 1)
         | _ \<Rightarrow> (RuneError, 1))
      else if 0xF0 \<le> byte c0 \<and> byte c0 \<le> 0xF4 then
        (case cs of
           c1 # c2 # c3 # _ \<Rightarrow>
             if accept_lo (byte c0) \<le> byte c1 \<and> byte c1 \<le> accept_hi (byte c0) \<and> cont c2 \<and> cont c3
             then ((byte c0 mod 8) * 262144 + (byte c1 mod 64) * 4096 + (byte c2 mod 64) * 64
                     + byte c3 mod 64, 4)
             else (RuneError, 1)
         | _ \<Rightarrow> (RuneError, 1))
      else (RuneError, 1))"

text \<open>\<^verbatim>\<open>for _, r := range s\<close>: the runes of a string, each with the bytes it came from.\<close>

function runes :: "string \<Rightarrow> (nat \<times> string) list" where
  "runes [] = []"
| "runes (c # cs) =
     (fst (DecodeRune (c # cs)), take (snd (DecodeRune (c # cs))) (c # cs))
       # runes (drop (snd (DecodeRune (c # cs))) (c # cs))"
  by pat_completeness auto

text \<open>\<^verbatim>\<open>unicode.IsSpace\<close>: the Latin-1 spaces and the rest of the White_Space table.\<close>

definition IsSpace :: "nat \<Rightarrow> bool" where
  "IsSpace r =
     (if r \<le> 0xFF then r \<in> {0x09, 0x0A, 0x0B, 0x0C, 0x0D, 0x20, 0x85, 0xA0}
      else r = 0x1680 \<or> (0x2000 \<le> r \<and> r \<le> 0x200A) \<or> r = 0x2028 \<or> r = 0x2029
             \<or> r = 0x202F \<or> r = 0x205F \<or> r = 0x3000)"

text \<open>
  The loop of \<^verbatim>\<open>strings.FieldsFunc\<close>: \<open>cur\<close> is the field being read, if any. A
  space closes it, any other rune extends or opens it, the end of the string closes it.
\<close>

fun FieldsFunc :: "(nat \<Rightarrow> bool) \<Rightarrow> (nat \<times> string) list \<Rightarrow> string option \<Rightarrow> string list" where
  "FieldsFunc f [] cur = (case cur of None \<Rightarrow> [] | Some fld \<Rightarrow> [fld])"
| "FieldsFunc f ((r, bs) # rs) cur =
     (if f r then (case cur of None \<Rightarrow> FieldsFunc f rs None | Some fld \<Rightarrow> fld # FieldsFunc f rs None)
      else FieldsFunc f rs (Some ((case cur of None \<Rightarrow> [] | Some fld \<Rightarrow> fld) @ bs)))"

definition Fields :: "string \<Rightarrow> string list" where
  "Fields s = FieldsFunc IsSpace (runes s) None"

subsection \<open>\<^verbatim>\<open>url.Values.Encode\<close> and \<^verbatim>\<open>filepath.Base\<close>\<close>

text \<open>
  \<^verbatim>\<open>url.QueryEscape\<close>: letters, digits and \<^verbatim>\<open>-_.~\<close> stay, a space becomes
  \<^verbatim>\<open>+\<close>, every other byte becomes \<^verbatim>\<open>%XX\<close> in upper-case hexadecimal.
\<close>

definition unreserved :: "char \<Rightarrow> bool" where
  "unreserved c =
     ((97 \<le> byte c \<and> byte c \<le> 122) \<or> (65 \<le> byte c \<and> byte c \<le> 90)
      \<or> (48 \<le> byte c \<and> byte c \<le> 57) \<or> c \<in> set ''-_.~'')"

definition upperhex :: "nat \<Rightarrow> char" where
  "upperhex n = ''0123456789ABCDEF'' ! n"

definition escape_byte :: "char \<Rightarrow> string" where
  "escape_byte c =
     (if unreserved c then [c]
      else if c = CHR '' '' then ''+''
      else [CHR ''%'', upperhex (byte c div 16), upperhex (byte c mod 16)])"

definition QueryEscape :: "string \<Rightarrow> string" where
  "QueryEscape s = concat (map escape_byte s)"

text \<open>\<^verbatim>\<open>params.Encode()\<close> of a \<^verbatim>\<open>url.Values\<close> holding the one key \<^verbatim>\<open>prefix\<close>.\<close>

definition Encode_prefix :: "string \<Rightarrow> string" where
  "Encode_prefix v = QueryEscape ''prefix'' @ ''='' @ QueryEscape v"

text \<open>\<^verbatim>\<open>filepath.Base\<close> where the path separator is \<^verbatim>\<open>/\<close>: the last element of the
  path, after the trailing separators are removed.\<close>

definition Base :: "string \<Rightarrow> string" where
  "Base path =
     (if path = [] then ''.''
      else let p = rev (takeWhile (\<lambda>c. c \<noteq> CHR ''/'') (dropWhile (\<lambda>c. c = CHR ''/'') (rev path)))
           in if p = [] then ''/'' else p)"

subsection \<open>HTTP headers\<close>

text \<open>
  An \<^verbatim>\<open>http.Header\<close> maps a canonical key to its values.
  \<^verbatim>\<open>textproto.CanonicalMIMEHeaderKey\<close> leaves a key with a byte that is no token
  character as it is, and otherwise puts the first letter and every letter after a
  hyphen in upper case and the other letters in lower case.
\<close>

type_synonym Header = "string \<rightharpoonup> string list"

definition validHeaderFieldByte :: "char \<Rightarrow> bool" where
  "validHeaderFieldByte c =
     ((97 \<le> byte c \<and> byte c \<le> 122) \<or> (65 \<le> byte c \<and> byte c \<le> 90)
      \<or> (48 \<le> byte c \<and> byte c \<le> 57) \<or> c \<in> set (CHR 0x27 # ''!#$%&*+-.^_`|~''))"

definition lower_letters :: string where
  "lower_letters = ''abcdefghijklmnopqrstuvwxyz''"

definition upper_letters :: string where
  "upper_letters = ''ABCDEFGHIJKLMNOPQRSTUVWXYZ''"

definition toUpper :: "char \<Rightarrow> char" where
  "toUpper c = (case map_of (zip lower_letters upper_letters) c of Some u \<Rightarrow> u | None \<Rightarrow> c)"

definition toLower :: "char \<Rightarrow> char" where
  "toLower c = (case map_of (zip upper_letters lower_letters) c of Some l \<Rightarrow> l | None \<Rightarrow> c)"

fun canonical :: "bool \<Rightarrow> string \<Rightarrow> string" where
  "canonical upper [] = []"
| "canonical upper (c # cs) =
     (if upper then toUpper c else toLower c) # canonical (c = CHR ''-'') cs"

definition CanonicalMIMEHeaderKey :: "string \<Rightarrow> string" where
  "CanonicalMIMEHeaderKey s = (if list_all validHeaderFieldByte s then canonical True s else s)"

text \<open>\<^verbatim>\<open>h.Get(key)\<close>: the first value of the key, the empty string when there is none.\<close>

definition Header_Get :: "Header \<Rightarrow> string \<Rightarrow> string" where
  "Header_Get h key =
     (case h (CanonicalMIMEHeaderKey key) of None \<Rightarrow> [] | Some [] \<Rightarrow> [] | Some (v # vs) \<Rightarrow> v)"

text \<open>\<^verbatim>\<open>h.Set(key, value)\<close>: the key now has this one value.\<close>

definition Header_Set :: "Header \<Rightarrow> string \<Rightarrow> string \<Rightarrow> Header" where
  "Header_Set h key v = h(CanonicalMIMEHeaderKey key \<mapsto> [v])"

subsection \<open>\<^verbatim>\<open>time.Parse\<close> with the layout \<^verbatim>\<open>http.TimeFormat\<close>\<close>

text \<open>
  A \<^verbatim>\<open>time.Time\<close> in UTC, by its date and clock fields. The zero value of the type
  is January 1 of year 1, 00:00:00.
\<close>

record Time =
  year :: nat
  month :: nat
  day :: nat
  hour :: nat
  minute :: nat
  second :: nat
  nsec :: nat

definition zeroTime :: Time where
  "zeroTime = \<lparr>year = 1, month = 1, day = 1, hour = 0, minute = 0, second = 0, nsec = 0\<rparr>"

text \<open>
  \<^verbatim>\<open>time.Parse(http.TimeFormat, value)\<close>, the layout being
  \<^verbatim>\<open>"Mon, 02 Jan 2006 15:04:05 GMT"\<close>. The layout is a weekday name, a two-digit day, a
  month name, a four-digit year, the hour in one or two digits, two-digit minutes and
  seconds, and the literal texts between them. The functions are those of package
  \<^verbatim>\<open>time\<close>; \<open>None\<close> is the parse error (the only caller drops it).
\<close>

definition isDigit :: "char \<Rightarrow> bool" where
  "isDigit c = (48 \<le> byte c \<and> byte c \<le> 57)"

definition digitVal :: "char \<Rightarrow> nat" where
  "digitVal c = byte c - 48"

definition atoi_digits :: "string \<Rightarrow> nat" where
  "atoi_digits ds = foldl (\<lambda>n c. 10 * n + digitVal c) 0 ds"

definition cutspace :: "string \<Rightarrow> string" where
  "cutspace s = dropWhile (\<lambda>c. c = CHR '' '') s"

text \<open>\<^verbatim>\<open>skip(value, prefix)\<close>: the value after the literal text \<^verbatim>\<open>prefix\<close>, a run of
  spaces in the prefix standing for a run of spaces in the value.\<close>

function skip :: "string \<Rightarrow> string \<Rightarrow> string option" where
  "skip v [] = Some v"
| "skip v (p # ps) =
     (if p = CHR '' '' then
        (case v of
           [] \<Rightarrow> skip (cutspace v) (cutspace ps)
         | c # cs \<Rightarrow> if c \<noteq> CHR '' '' then None else skip (cutspace v) (cutspace ps))
      else
        (case v of
           [] \<Rightarrow> None
         | c # cs \<Rightarrow> if c \<noteq> p then None else skip cs ps))"
  by pat_completeness auto
termination
  by (relation "measure (\<lambda>(v, p). length p)")
     (simp_all add: cutspace_def le_imp_less_Suc length_dropWhile_le)

text \<open>\<^verbatim>\<open>getnum(s, fixed)\<close>: a number of one or two digits, of two when \<^verbatim>\<open>fixed\<close>.\<close>

definition getnum :: "string \<Rightarrow> bool \<Rightarrow> (nat \<times> string) option" where
  "getnum s fixed =
     (case s of
        [] \<Rightarrow> None
      | c0 # r0 \<Rightarrow>
          if \<not> isDigit c0 then None
          else (case r0 of
                  [] \<Rightarrow> if fixed then None else Some (digitVal c0, r0)
                | c1 # r1 \<Rightarrow>
                    if \<not> isDigit c1 then (if fixed then None else Some (digitVal c0, r0))
                    else Some (digitVal c0 * 10 + digitVal c1, r1)))"

text \<open>\<^verbatim>\<open>match\<close> compares two strings of the same length without regard to the case of
  letters (\<^verbatim>\<open>c |= 'a' - 'A'\<close> sets the bit of value 32); \<^verbatim>\<open>lookup\<close> finds the first
  name of a table the value starts with.\<close>

definition or32 :: "nat \<Rightarrow> nat" where
  "or32 b = (if odd (b div 32) then b else b + 32)"

definition match_byte :: "char \<times> char \<Rightarrow> bool" where
  "match_byte cc =
     (fst cc = snd cc
      \<or> (or32 (byte (fst cc)) = or32 (byte (snd cc))
           \<and> 97 \<le> or32 (byte (fst cc)) \<and> or32 (byte (fst cc)) \<le> 122))"

definition match :: "string \<Rightarrow> string \<Rightarrow> bool" where
  "match s1 s2 = list_all match_byte (zip s1 s2)"

fun lookup_from :: "nat \<Rightarrow> string list \<Rightarrow> string \<Rightarrow> (nat \<times> string) option" where
  "lookup_from i [] val = None"
| "lookup_from i (v # tab) val =
     (if length v \<le> length val \<and> match (take (length v) val) v
      then Some (i, drop (length v) val)
      else lookup_from (Suc i) tab val)"

definition lookup :: "string list \<Rightarrow> string \<Rightarrow> (nat \<times> string) option" where
  "lookup tab val = lookup_from 0 tab val"

definition shortDayNames :: "string list" where
  "shortDayNames = [''Sun'', ''Mon'', ''Tue'', ''Wed'', ''Thu'', ''Fri'', ''Sat'']"

definition shortMonthNames :: "string list" where
  "shortMonthNames = [''Jan'', ''Feb'', ''Mar'', ''Apr'', ''May'', ''Jun'', ''Jul'', ''Aug'',
     ''Sep'', ''Oct'', ''Nov'', ''Dec'']"

text \<open>The year of the layout element \<^verbatim>\<open>2006\<close>: four digits.\<close>

definition getyear :: "string \<Rightarrow> (nat \<times> string) option" where
  "getyear v =
     (if length v < 4 then None
      else if list_all isDigit (take 4 v) then Some (atoi_digits (take 4 v), drop 4 v)
      else None)"

text \<open>
  After the seconds the value may carry a fraction the layout does not have: a period
  or a comma and digits. It is read as nanoseconds (\<^verbatim>\<open>parseNanoseconds\<close>, at most nine
  digits count).
\<close>

definition fraction :: "string \<Rightarrow> nat \<times> string" where
  "fraction v =
     (case v of
        c0 # c1 # r \<Rightarrow>
          if (c0 = CHR ''.'' \<or> c0 = CHR '','') \<and> isDigit c1 then
            (let ds = take 9 (takeWhile isDigit (c1 # r))
             in (atoi_digits ds * 10 ^ (9 - length ds), dropWhile isDigit (c1 # r)))
          else (0, v)
      | _ \<Rightarrow> (0, v))"

definition isLeap :: "nat \<Rightarrow> bool" where
  "isLeap y = (y mod 4 = 0 \<and> (y mod 100 \<noteq> 0 \<or> y mod 400 = 0))"

definition daysIn :: "nat \<Rightarrow> nat \<Rightarrow> nat" where
  "daysIn m y =
     (if m = 2 then (if isLeap y then 29 else 28)
      else if m = 4 \<or> m = 6 \<or> m = 9 \<or> m = 11 then 30 else 31)"

definition time_Parse_TimeFormat :: "string \<Rightarrow> Time option" where
  "time_Parse_TimeFormat val =
     do {
       (wd, v1) \<leftarrow> lookup shortDayNames val;
       v2 \<leftarrow> skip v1 '', '';
       (d, v3) \<leftarrow> getnum v2 True;
       v4 \<leftarrow> skip v3 '' '';
       (m, v5) \<leftarrow> lookup shortMonthNames v4;
       v6 \<leftarrow> skip v5 '' '';
       (y, v7) \<leftarrow> getyear v6;
       v8 \<leftarrow> skip v7 '' '';
       (h, v9) \<leftarrow> getnum v8 False;
       if 24 \<le> h then None else do {
         v10 \<leftarrow> skip v9 '':'';
         (mi, v11) \<leftarrow> getnum v10 True;
         if 60 \<le> mi then None else do {
           v12 \<leftarrow> skip v11 '':'';
           (s, v13) \<leftarrow> getnum v12 True;
           if 60 \<le> s then None else do {
             v15 \<leftarrow> skip (snd (fraction v13)) '' GMT'';
             if v15 \<noteq> [] then None
             else if d < 1 \<or> daysIn (Suc m) y < d then None
             else Some \<lparr>year = y, month = Suc m, day = d, hour = h, minute = mi, second = s,
                        nsec = fst (fraction v13)\<rparr>
           }
         }
       }
     }"

section \<open>The HTTP exchange\<close>

text \<open>
  An \<^verbatim>\<open>io.Reader\<close> is the stream of bytes behind it and, when reading it fails
  before the end of the stream, the number of bytes that are read before the error and
  the error. Reading to the end (\<^verbatim>\<open>io.ReadAll\<close>, \<^verbatim>\<open>io.Copy\<close>) gives the whole
  stream and no error, or the bytes before the failure and the error.
\<close>

record Reader =
  content :: string
  failure :: "(nat \<times> go_error) option"

definition ReadAll :: "Reader \<Rightarrow> string \<times> go_error option" where
  "ReadAll r =
     (case failure r of
        None \<Rightarrow> (content r, None)
      | Some (n, e) \<Rightarrow> (take n (content r), Some e))"

text \<open>
  A \<^verbatim>\<open>context.Context\<close>, as the callers of the client make it:
  \<^verbatim>\<open>context.Background()\<close> and \<^verbatim>\<open>context.WithTimeout(parent, d)\<close>. A nil context
  is \<open>None\<close>.
\<close>

datatype Context = Background | WithTimeout Context int

text \<open>
  The fields of a \<^verbatim>\<open>url.URL\<close>, the result of \<^verbatim>\<open>url.Parse\<close>. A request holds
  the parsed URL and not the text it was made from: the text after a \<^verbatim>\<open>#\<close> is the
  fragment and the text after a \<^verbatim>\<open>?\<close> is the query, whatever part of the text of
  the URL they came from.
\<close>

record url =
  Scheme :: string
  Host :: string
  Path :: string
  RawQuery :: string
  Fragment :: string

text \<open>
  \<^verbatim>\<open>removeEmptyPort\<close> of package \<^verbatim>\<open>net/http\<close>: a host that ends in a colon with
  no port after it loses the colon. \<open>LastIndexByte\<close> is \<^verbatim>\<open>strings.LastIndex\<close> for
  a string of one byte: the index of the last occurrence, or \<open>-1\<close>.
\<close>

definition LastIndexByte :: "string \<Rightarrow> char \<Rightarrow> int" where
  "LastIndexByte s c =
     (if c \<in> set s then int (length s) - 1 - int (length (takeWhile (\<lambda>x. x \<noteq> c) (rev s)))
      else - 1)"

definition hasPort :: "string \<Rightarrow> bool" where
  "hasPort s = (LastIndexByte s (CHR '']'') < LastIndexByte s (CHR '':''))"

definition removeEmptyPort :: "string \<Rightarrow> string" where
  "removeEmptyPort host =
     (if hasPort host then (if host \<noteq> [] \<and> last host = CHR '':'' then butlast host else host)
      else host)"

text \<open>
  A request body is absent, or the form that \<^verbatim>\<open>multipart.Writer\<close> wrote: its boundary
  and its parts, a part made by \<^verbatim>\<open>CreateFormFile\<close> having a field name, a file name
  and the bytes copied into it. The byte layout of the form is that of package
  \<^verbatim>\<open>mime/multipart\<close> and is not spelled out.
\<close>

datatype form_part = FormFile string string string

datatype req_body = NoBody | MultipartBody string "form_part list"

text \<open>The fields of an \<^verbatim>\<open>http.Request\<close> that the client and the exchange use.\<close>

record request =
  Ctx :: Context
  Method :: string
  URL :: url
  Header :: Header
  Body :: req_body

text \<open>The fields of an \<^verbatim>\<open>http.Response\<close> the client reads (its \<^verbatim>\<open>Header\<close> and
  \<^verbatim>\<open>Body\<close> fields are named apart from those of the request).\<close>

record response =
  StatusCode :: int
  RespHeader :: Header
  RespBody :: Reader
  ContentLength :: int

text \<open>An \<^verbatim>\<open>http.Client\<close>: its transport (\<open>None\<close> is the default transport) and its
  timeout in nanoseconds.\<close>

record 't http_Client =
  Transport :: "'t option"
  client_Timeout :: int

definition DefaultClient :: "'t http_Client" where
  "DefaultClient = \<lparr>Transport = None, client_Timeout = 0\<rparr>"

section \<open>The data of package client\<close>

record 't Client =
  baseURL :: string
  httpClient :: "'t http_Client"
  apiKey :: string

record ObjectInfo =
  Key :: string
  Name :: string
  ContentType :: string
  LastModified :: Time
  ETag :: string
  Size :: int

text \<open>\<^verbatim>\<open>ListBucketResult\<close>; its field \<^verbatim>\<open>Name\<close> is named apart from that of
  \<^verbatim>\<open>ObjectInfo\<close>.\<close>

record ListBucketResult =
  Name_lb :: string
  Prefix :: string
  Contents :: "ObjectInfo list"

text \<open>\<^verbatim>\<open>UploadResult\<close>; its fields \<^verbatim>\<open>Key\<close> and \<^verbatim>\<open>ETag\<close> are named apart from
  those of \<^verbatim>\<open>ObjectInfo\<close>.\<close>

record UploadResult =
  Key_up :: string
  ETag_up :: string
  PreviewURL :: string
  ThumbnailURL :: string

record 't ClientOptions =
  BaseURL :: string
  APIKey :: string
  HTTPClient :: "'t http_Client option"
  Timeout :: int

section \<open>What the client calls\<close>

text \<open>
  The client reaches the world through four library calls, which are parameters of the
  embedding, as is the opening of a local file, which package client never calls.
  \<open>'w\<close> is the state of the world (the servers, the network, the source of random
  bytes).
  \<^item> \<open>url_Parse\<close>: \<^verbatim>\<open>url.Parse\<close>, the parsed URL of a text or an error.
  \<^item> \<open>Do\<close>: \<^verbatim>\<open>(*http.Client).Do\<close>: the exchange of a request for a response or an
    error (a cancelled context and a timeout are among the errors).
  \<^item> \<open>randomBoundary\<close>: the boundary \<^verbatim>\<open>multipart.NewWriter\<close> draws.
  \<^item> \<open>xml_Decode\<close>: \<^verbatim>\<open>xml.NewDecoder(body).Decode(&result)\<close> for a
    \<^verbatim>\<open>ListBucketResult\<close>.
  \<^item> \<open>os_Open\<close>: \<^verbatim>\<open>os.Open\<close>, the reading of a local file.
\<close>

record ('t, 'w) env =
  url_Parse :: "string \<Rightarrow> go_error + url"
  Do :: "'t http_Client \<Rightarrow> request \<Rightarrow> 'w \<Rightarrow> (go_error + response) \<times> 'w"
  randomBoundary :: "'w \<Rightarrow> string \<times> 'w"
  xml_Decode :: "Reader \<Rightarrow> go_error + ListBucketResult"
  os_Open :: "string \<Rightarrow> 'w \<Rightarrow> (go_error + Reader) \<times> 'w"

text \<open>
  \<^verbatim>\<open>http.NewRequestWithContext(ctx, method, url, body)\<close>. It fails on a nil context
  and on a text that \<^verbatim>\<open>url.Parse\<close> refuses (it also fails on a method that is no
  token; the methods the client passes are \<^verbatim>\<open>POST\<close>, \<^verbatim>\<open>PUT\<close>, \<^verbatim>\<open>GET\<close>,
  \<^verbatim>\<open>HEAD\<close> and \<^verbatim>\<open>DELETE\<close>). The request has the context, the method, the parsed
  URL with an empty port removed from its host, no header and the body.
\<close>

definition NewRequestWithContext ::
  "('t, 'w) env \<Rightarrow> Context option \<Rightarrow> string \<Rightarrow> string \<Rightarrow> req_body \<Rightarrow> go_error + request" where
  "NewRequestWithContext env ctx method url body =
     (case ctx of
        None \<Rightarrow> Inl (ErrorString ''net/http: nil Context'')
      | Some cx \<Rightarrow>
          (case url_Parse env url of
             Inl e \<Rightarrow> Inl e
           | Inr u \<Rightarrow>
               Inr \<lparr>Ctx = cx, Method = method, URL = u\<lparr>Host := removeEmptyPort (Host u)\<rparr>,
                    Header = Map.empty, Body = body\<rparr>))"

text \<open>\<^verbatim>\<open>(*http.Client).Head(url)\<close>: the request is made with
  \<^verbatim>\<open>context.Background()\<close>.\<close>

definition Head ::
  "('t, 'w) env \<Rightarrow> 't http_Client \<Rightarrow> string \<Rightarrow> 'w \<Rightarrow> (go_error + response) \<times> 'w" where
  "Head env hc url w =
     (case NewRequestWithContext env (Some Background) ''HEAD'' url NoBody of
        Inl e \<Rightarrow> (Inl e, w)
      | Inr req \<Rightarrow> Do env hc req w)"

text \<open>\<^verbatim>\<open>(*multipart.Writer).FormDataContentType\<close>\<close>

definition FormDataContentType :: "string \<Rightarrow> string" where
  "FormDataContentType b =
     ''multipart/form-data; boundary='' @
       (if list_ex (\<lambda>c. c \<in> set (CHR 0x22 # CHR 0x5C # ''()<>@,;:/[]?= '')) b
        then [CHR 0x22] @ b @ [CHR 0x22] else b)"

section \<open>The client\<close>

definition Second :: int where
  "Second = 1000000000"

definition NewClient :: "'t ClientOptions \<Rightarrow> 't Client" where
  "NewClient options =
     \<lparr>baseURL = TrimRight (BaseURL options) ''/'',
      httpClient =
        (case HTTPClient options of
           None \<Rightarrow>
             \<lparr>Transport = None,
              client_Timeout = (if Timeout options = 0 then 30 * Second else Timeout options)\<rparr>
         | Some hc \<Rightarrow> hc),
      apiKey = APIKey options\<rparr>"

definition addAuth :: "'t Client \<Rightarrow> request \<Rightarrow> request" where
  "addAuth c req =
     (if apiKey c \<noteq> [] then
        req\<lparr>Header :=
              Header_Set (Header_Set (Header req) ''Authorization'' (''Bearer '' @ apiKey c))
                ''X-API-Key'' (apiKey c)\<rparr>
      else req)"

text \<open>
  Every operation ends its failure path with the same two lines,
  \<^verbatim>\<open>body, _ := io.ReadAll(resp.Body)\<close> and
  \<^verbatim>\<open>return fmt.Errorf("<what>: %s (status: %d)", string(body), resp.StatusCode)\<close>.
\<close>

definition status_error :: "string \<Rightarrow> response \<Rightarrow> go_error" where
  "status_error what resp =
     ErrorString (what @ '': '' @ fst (ReadAll (RespBody resp)) @ '' (status: ''
                    @ Sprint_d (StatusCode resp) @ '')'')"

text \<open>
  Each operation is embedded in two parts: \<open>X_request\<close> is the operation up to the call
  of \<^verbatim>\<open>c.httpClient.Do(req)\<close> (it builds the request or fails), and \<open>X\<close> is the
  whole operation, from the state of the world to the result and the new state.
  The \<^verbatim>\<open>context.Context\<close> of a call goes into the request; whether it is cancelled
  is part of the world, and \<open>Do\<close> answers with an error when it is.
\<close>

subsection \<open>MakeBucket and DeleteBucket\<close>

definition MakeBucket_request ::
  "('t, 'w) env \<Rightarrow> 't Client \<Rightarrow> Context option \<Rightarrow> string \<Rightarrow> go_error + request" where
  "MakeBucket_request env c ctx bucketName =
     (case NewRequestWithContext env ctx ''POST'' (baseURL c @ ''/api/'' @ bucketName) NoBody of
        Inl e \<Rightarrow> Inl (Errorf_w ''failed to create request: '' e)
      | Inr req \<Rightarrow> Inr (addAuth c req))"

definition MakeBucket ::
  "('t, 'w) env \<Rightarrow> 't Client \<Rightarrow> Context option \<Rightarrow> string \<Rightarrow> 'w \<Rightarrow> (go_error + unit) \<times> 'w" where
  "MakeBucket env c ctx bucketName w =
     (case MakeBucket_request env c ctx bucketName of
        Inl e \<Rightarrow> (Inl e, w)
      | Inr req \<Rightarrow>
          (case Do env (httpClient c) req w of
             (Inl e, w') \<Rightarrow> (Inl (Errorf_w ''failed to make request: '' e), w')
           | (Inr resp, w') \<Rightarrow>
               if StatusCode resp \<noteq> 200
               then (Inl (status_error ''failed to create bucket'' resp), w')
               else (Inr (), w')))"

definition DeleteBucket_request ::
  "('t, 'w) env \<Rightarrow> 't Client \<Rightarrow> Context option \<Rightarrow> string \<Rightarrow> go_error + request" where
  "DeleteBucket_request env c ctx bucketName =
     (case NewRequestWithContext env ctx ''DELETE'' (baseURL c @ ''/api/'' @ bucketName) NoBody of
        Inl e \<Rightarrow> Inl (Errorf_w ''failed to create request: '' e)
      | Inr req \<Rightarrow> Inr (addAuth c req))"

definition DeleteBucket ::
  "('t, 'w) env \<Rightarrow> 't Client \<Rightarrow> Context option \<Rightarrow> string \<Rightarrow> 'w \<Rightarrow> (go_error + unit) \<times> 'w" where
  "DeleteBucket env c ctx bucketName w =
     (case DeleteBucket_request env c ctx bucketName of
        Inl e \<Rightarrow> (Inl e, w)
      | Inr req \<Rightarrow>
          (case Do env (httpClient c) req w of
             (Inl e, w') \<Rightarrow> (Inl (Errorf_w ''failed to make request: '' e), w')
           | (Inr resp, w') \<Rightarrow>
               if StatusCode resp \<noteq> 200
               then (Inl (status_error ''failed to delete bucket'' resp), w')
               else (Inr (), w')))"

subsection \<open>PutObject\<close>

text \<open>The two labels the upload response is searched for, as the UTF-8 bytes of the
  source file: the label of the preview link and the label of the thumbnail link, each
  ending in an ASCII colon.\<close>

definition previewLabel :: string where
  "previewLabel =
     [CHR 0xE9, CHR 0xA2, CHR 0x84, CHR 0xE8, CHR 0xA7, CHR 0x88, CHR 0xE5, CHR 0x9C, CHR 0xB0,
      CHR 0xE5, CHR 0x9D, CHR 0x80, CHR 0x3A]"

definition thumbnailLabel :: string where
  "thumbnailLabel =
     [CHR 0xE7, CHR 0xBC, CHR 0xA9, CHR 0xE7, CHR 0x95, CHR 0xA5, CHR 0xE5, CHR 0x9B, CHR 0xBE,
      CHR 0xE5, CHR 0x9C, CHR 0xB0, CHR 0xE5, CHR 0x9D, CHR 0x80, CHR 0x3A]"

text \<open>The body of the loop over the lines of the response.\<close>

definition scan_line :: "UploadResult \<Rightarrow> string \<Rightarrow> UploadResult" where
  "scan_line result line =
     (let r1 =
        (if Contains line previewLabel then
           (let parts = Fields line
            in if 1 < length parts then result\<lparr>PreviewURL := parts ! (length parts - 1)\<rparr>
               else result)
         else result)
      in if Contains line thumbnailLabel then
           (let parts = Fields line
            in if 1 < length parts then r1\<lparr>ThumbnailURL := parts ! (length parts - 1)\<rparr>
               else r1)
         else r1)"

text \<open>The extraction of the links: the loop runs when the body holds the preview label.\<close>

definition extract_URLs :: "string \<Rightarrow> UploadResult \<Rightarrow> UploadResult" where
  "extract_URLs bodyStr result =
     (if Contains bodyStr previewLabel
      then foldl scan_line result (Split bodyStr (CHR 0x0A))
      else result)"

text \<open>
  For the statement of what the loop leaves in a field: the lines of a body at which the
  loop assigns the field of a label, that is the lines that hold the label and have more
  than one field.
\<close>

definition labelled_lines :: "string \<Rightarrow> string \<Rightarrow> string list" where
  "labelled_lines label bodyStr =
     filter (\<lambda>line. Contains line label \<and> 1 < length (Fields line)) (Split bodyStr (CHR 0x0A))"

text \<open>
  \<^verbatim>\<open>io.Copy(fileWriter, reader)\<close> writes what it reads into the form and fails with the
  error of the reader. (\<^verbatim>\<open>CreateFormFile\<close> writes into a \<^verbatim>\<open>bytes.Buffer\<close>, which
  never fails, so its error branch has no path.)
\<close>

definition PutObject_request ::
  "('t, 'w) env \<Rightarrow> 't Client \<Rightarrow> Context option \<Rightarrow> string \<Rightarrow> string \<Rightarrow> Reader \<Rightarrow> string \<Rightarrow> string
     \<Rightarrow> go_error + request" where
  "PutObject_request env c ctx bucketName objectKey reader filename boundary =
     (case ReadAll reader of
        (copied, Some e) \<Rightarrow> Inl (Errorf_w ''failed to copy file data: '' e)
      | (copied, None) \<Rightarrow>
          (case NewRequestWithContext env ctx ''PUT''
                  (baseURL c @ ''/api/'' @ bucketName @ ''/'' @ objectKey)
                  (MultipartBody boundary [FormFile ''file'' filename copied]) of
             Inl e \<Rightarrow> Inl (Errorf_w ''failed to create request: '' e)
           | Inr req \<Rightarrow>
               Inr (addAuth c
                      (req\<lparr>Header :=
                             Header_Set (Header req) ''Content-Type''
                               (FormDataContentType boundary)\<rparr>))))"

definition PutObject ::
  "('t, 'w) env \<Rightarrow> 't Client \<Rightarrow> Context option \<Rightarrow> string \<Rightarrow> string \<Rightarrow> Reader \<Rightarrow> string \<Rightarrow> 'w
     \<Rightarrow> (go_error + UploadResult) \<times> 'w" where
  "PutObject env c ctx bucketName objectKey reader filename w =
     (case randomBoundary env w of
        (boundary, w1) \<Rightarrow>
          (case PutObject_request env c ctx bucketName objectKey reader filename boundary of
             Inl e \<Rightarrow> (Inl e, w1)
           | Inr req \<Rightarrow>
               (case Do env (httpClient c) req w1 of
                  (Inl e, w') \<Rightarrow> (Inl (Errorf_w ''failed to make request: '' e), w')
                | (Inr resp, w') \<Rightarrow>
                    if StatusCode resp \<noteq> 200
                    then (Inl (status_error ''failed to upload object'' resp), w')
                    else
                      (case ReadAll (RespBody resp) of
                         (body, Some e) \<Rightarrow> (Inl (Errorf_w ''failed to read response: '' e), w')
                       | (body, None) \<Rightarrow>
                           (Inr (extract_URLs body
                                   \<lparr>Key_up = objectKey,
                                    ETag_up = Header_Get (RespHeader resp) ''ETag'',
                                    PreviewURL = [], ThumbnailURL = []\<rparr>), w')))))"

subsection \<open>GetObject and GetObjectRange\<close>

definition GetObject_request ::
  "('t, 'w) env \<Rightarrow> 't Client \<Rightarrow> Context option \<Rightarrow> string \<Rightarrow> string \<Rightarrow> go_error + request" where
  "GetObject_request env c ctx bucketName objectKey =
     (case NewRequestWithContext env ctx ''GET''
             (baseURL c @ ''/api/'' @ bucketName @ ''/'' @ objectKey) NoBody of
        Inl e \<Rightarrow> Inl (Errorf_w ''failed to create request: '' e)
      | Inr req \<Rightarrow> Inr req)"

definition GetObject ::
  "('t, 'w) env \<Rightarrow> 't Client \<Rightarrow> Context option \<Rightarrow> string \<Rightarrow> string \<Rightarrow> 'w \<Rightarrow> (go_error + Reader) \<times> 'w" where
  "GetObject env c ctx bucketName objectKey w =
     (case GetObject_request env c ctx bucketName objectKey of
        Inl e \<Rightarrow> (Inl e, w)
      | Inr req \<Rightarrow>
          (case Do env (httpClient c) req w of
             (Inl e, w') \<Rightarrow> (Inl (Errorf_w ''failed to make request: '' e), w')
           | (Inr resp, w') \<Rightarrow>
               if StatusCode resp \<noteq> 200
               then (Inl (status_error ''failed to get object'' resp), w')
               else (Inr (RespBody resp), w')))"

definition GetObjectRange_request ::
  "('t, 'w) env \<Rightarrow> 't Client \<Rightarrow> Context option \<Rightarrow> string \<Rightarrow> string \<Rightarrow> int \<Rightarrow> int \<Rightarrow> go_error + request" where
  "GetObjectRange_request env c ctx bucketName objectKey start end =
     (case NewRequestWithContext env ctx ''GET''
             (baseURL c @ ''/api/'' @ bucketName @ ''/'' @ objectKey) NoBody of
        Inl e \<Rightarrow> Inl (Errorf_w ''failed to create request: '' e)
      | Inr req \<Rightarrow>
          Inr (if 0 < start \<or> 0 < end
               then req\<lparr>Header :=
                          Header_Set (Header req) ''Range''
                            (''bytes='' @ Sprint_d start @ ''-'' @ Sprint_d end)\<rparr>
               else req))"

definition GetObjectRange ::
  "('t, 'w) env \<Rightarrow> 't Client \<Rightarrow> Context option \<Rightarrow> string \<Rightarrow> string \<Rightarrow> int \<Rightarrow> int \<Rightarrow> 'w
     \<Rightarrow> (go_error + Reader) \<times> 'w" where
  "GetObjectRange env c ctx bucketName objectKey start end w =
     (case GetObjectRange_request env c ctx bucketName objectKey start end of
        Inl e \<Rightarrow> (Inl e, w)
      | Inr req \<Rightarrow>
          (case Do env (httpClient c) req w of
             (Inl e, w') \<Rightarrow> (Inl (Errorf_w ''failed to make request: '' e), w')
           | (Inr resp, w') \<Rightarrow>
               if StatusCode resp \<noteq> 200 \<and> StatusCode resp \<noteq> 206
               then (Inl (status_error ''failed to get object'' resp), w')
               else (Inr (RespBody resp), w')))"

subsection \<open>DeleteObject, HeadObject and ListObjects\<close>

definition DeleteObject_request ::
  "('t, 'w) env \<Rightarrow> 't Client \<Rightarrow> Context option \<Rightarrow> string \<Rightarrow> string \<Rightarrow> go_error + request" where
  "DeleteObject_request env c ctx bucketName objectKey =
     (case NewRequestWithContext env ctx ''DELETE''
             (baseURL c @ ''/api/'' @ bucketName @ ''/'' @ objectKey) NoBody of
        Inl e \<Rightarrow> Inl (Errorf_w ''failed to create request: '' e)
      | Inr req \<Rightarrow> Inr (addAuth c req))"

definition DeleteObject ::
  "('t, 'w) env \<Rightarrow> 't Client \<Rightarrow> Context option \<Rightarrow> string \<Rightarrow> string \<Rightarrow> 'w \<Rightarrow> (go_error + unit) \<times> 'w" where
  "DeleteObject env c ctx bucketName objectKey w =
     (case DeleteObject_request env c ctx bucketName objectKey of
        Inl e \<Rightarrow> (Inl e, w)
      | Inr req \<Rightarrow>
          (case Do env (httpClient c) req w of
             (Inl e, w') \<Rightarrow> (Inl (Errorf_w ''failed to make request: '' e), w')
           | (Inr resp, w') \<Rightarrow>
               if StatusCode resp \<noteq> 200
               then (Inl (status_error ''failed to delete object'' resp), w')
               else (Inr (), w')))"

definition HeadObject_request ::
  "('t, 'w) env \<Rightarrow> 't Client \<Rightarrow> Context option \<Rightarrow> string \<Rightarrow> string \<Rightarrow> go_error + request" where
  "HeadObject_request env c ctx bucketName objectKey =
     (case NewRequestWithContext env ctx ''HEAD''
             (baseURL c @ ''/api/'' @ bucketName @ ''/'' @ objectKey) NoBody of
        Inl e \<Rightarrow> Inl (Errorf_w ''failed to create request: '' e)
      | Inr req \<Rightarrow> Inr req)"

definition HeadObject ::
  "('t, 'w) env \<Rightarrow> 't Client \<Rightarrow> Context option \<Rightarrow> string \<Rightarrow> string \<Rightarrow> 'w \<Rightarrow> (go_error + ObjectInfo) \<times> 'w" where
  "HeadObject env c ctx bucketName objectKey w =
     (case HeadObject_request env c ctx bucketName objectKey of
        Inl e \<Rightarrow> (Inl e, w)
      | Inr req \<Rightarrow>
          (case Do env (httpClient c) req w of
             (Inl e, w') \<Rightarrow> (Inl (Errorf_w ''failed to make request: '' e), w')
           | (Inr resp, w') \<Rightarrow>
               if StatusCode resp \<noteq> 200
               then (Inl (status_error ''failed to get object metadata'' resp), w')
               else
                 (Inr \<lparr>Key = objectKey,
                       Name = [],
                       ContentType = Header_Get (RespHeader resp) ''Content-Type'',
                       LastModified =
                         (case time_Parse_TimeFormat (Header_Get (RespHeader resp) ''Last-Modified'') of
                            None \<Rightarrow> zeroTime
                          | Some t \<Rightarrow> t),
                       ETag = Trim (Header_Get (RespHeader resp) ''ETag'') [CHR 0x22],
                       Size = ContentLength resp\<rparr>, w')))"

definition ListObjects_request ::
  "('t, 'w) env \<Rightarrow> 't Client \<Rightarrow> Context option \<Rightarrow> string \<Rightarrow> string \<Rightarrow> go_error + request" where
  "ListObjects_request env c ctx bucketName pre =
     (case NewRequestWithContext env ctx ''GET''
             (if pre \<noteq> [] then baseURL c @ ''/api/'' @ bucketName @ ''?'' @ Encode_prefix pre
              else baseURL c @ ''/api/'' @ bucketName) NoBody of
        Inl e \<Rightarrow> Inl (Errorf_w ''failed to create request: '' e)
      | Inr req \<Rightarrow> Inr req)"

definition ListObjects ::
  "('t, 'w) env \<Rightarrow> 't Client \<Rightarrow> Context option \<Rightarrow> string \<Rightarrow> string \<Rightarrow> 'w \<Rightarrow> (go_error + ObjectInfo list) \<times> 'w" where
  "ListObjects env c ctx bucketName pre w =
     (case ListObjects_request env c ctx bucketName pre of
        Inl e \<Rightarrow> (Inl e, w)
      | Inr req \<Rightarrow>
          (case Do env (httpClient c) req w of
             (Inl e, w') \<Rightarrow> (Inl (Errorf_w ''failed to make request: '' e), w')
           | (Inr resp, w') \<Rightarrow>
               if StatusCode resp \<noteq> 200
               then (Inl (status_error ''failed to list objects'' resp), w')
               else
                 (case xml_Decode env (RespBody resp) of
                    Inl e \<Rightarrow> (Inl (Errorf_w ''failed to parse response: '' e), w')
                  | Inr result \<Rightarrow> (Inr (Contents result), w'))))"

subsection \<open>PutObjectFromFile and GetObjectURL\<close>

definition PutObjectFromFile ::
  "('t, 'w) env \<Rightarrow> 't Client \<Rightarrow> Context option \<Rightarrow> string \<Rightarrow> string \<Rightarrow> string \<Rightarrow> 'w
     \<Rightarrow> (go_error + UploadResult) \<times> 'w" where
  "PutObjectFromFile env c ctx bucketName objectKey filePath w =
     (case Head env DefaultClient filePath w of
        (Inl e, w1) \<Rightarrow> (Inl (Errorf_w ''failed to open file: '' e), w1)
      | (Inr file, w1) \<Rightarrow>
          PutObject env c ctx bucketName objectKey (RespBody file) (Base filePath) w1)"

definition GetObjectURL :: "'t Client \<Rightarrow> string \<Rightarrow> string \<Rightarrow> string" where
  "GetObjectURL c bucketName objectKey = baseURL c @ ''/api/'' @ bucketName @ ''/'' @ objectKey"

section \<open>Concrete clients and servers\<close>

text \<open>
  \<^verbatim>\<open>url.Parse\<close> on the URLs used below, which have the form
  \<^verbatim>\<open>scheme://host/path?query#fragment\<close> (query and fragment may be absent) and no
  byte that needs escaping in the path: the fragment is the text after the first
  \<^verbatim>\<open>#\<close>, the query the text between the first \<^verbatim>\<open>?\<close> and the fragment, the scheme
  the text before \<^verbatim>\<open>://\<close>, the host the text up to the next slash and the path the
  rest.
\<close>

definition text_before :: "char \<Rightarrow> string \<Rightarrow> string" where
  "text_before c s = takeWhile (\<lambda>x. x \<noteq> c) s"

definition text_after :: "char \<Rightarrow> string \<Rightarrow> string" where
  "text_after c s = drop 1 (dropWhile (\<lambda>x. x \<noteq> c) s)"

definition url_text :: "string \<Rightarrow> string" where
  "url_text s = text_before (CHR ''?'') (text_before (CHR ''#'') s)"

definition plain_url_Parse :: "string \<Rightarrow> go_error + url" where
  "plain_url_Parse s =
     (if HasPrefix (text_after (CHR '':'') (url_text s)) ''//'' then
        Inr \<lparr>Scheme = text_before (CHR '':'') (url_text s),
             Host = text_before (CHR ''/'') (drop 2 (text_after (CHR '':'') (url_text s))),
             Path = dropWhile (\<lambda>x. x \<noteq> CHR ''/'') (drop 2 (text_after (CHR '':'') (url_text s))),
             RawQuery = text_after (CHR ''?'') (text_before (CHR ''#'') s),
             Fragment = text_after (CHR ''#'') s\<rparr>
      else
        Inr \<lparr>Scheme = [], Host = [], Path = url_text s,
             RawQuery = text_after (CHR ''?'') (text_before (CHR ''#'') s),
             Fragment = text_after (CHR ''#'') s\<rparr>)"

text \<open>
  The client and the context that \<^verbatim>\<open>examples/main.go\<close> builds, and a world for them:
  URLs are parsed as above, every exchange is answered with the one response \<open>resp\<close>
  and counted, the boundary is a fixed string, response bodies are decoded by
  \<open>decode\<close>, and there is no local file.
\<close>

definition example_ctx :: "Context option" where
  "example_ctx = Some Background"

definition example_client :: "unit Client" where
  "example_client =
     NewClient \<lparr>BaseURL = ''http://127.0.0.1:3000'', APIKey = ''sssss'', HTTPClient = None,
                Timeout = 30 * Second\<rparr>"

definition answering ::
  "response \<Rightarrow> (Reader \<Rightarrow> go_error + ListBucketResult) \<Rightarrow> (unit, nat) env" where
  "answering resp decode =
     \<lparr>url_Parse = plain_url_Parse,
      Do = (\<lambda>hc req w. (Inr resp, Suc w)),
      randomBoundary = (\<lambda>w. (''5a1f09c2'', w)),
      xml_Decode = decode,
      os_Open = (\<lambda>path w. (Inl (ErrorString ''no such file''), w))\<rparr>"

definition no_listing :: "Reader \<Rightarrow> go_error + ListBucketResult" where
  "no_listing body = Inl (ErrorString ''EOF'')"

text \<open>A response that reports a missing bucket.\<close>

definition not_found :: response where
  "not_found =
     \<lparr>StatusCode = 404, RespHeader = Map.empty,
      RespBody = \<lparr>content = ''no such bucket'', failure = None\<rparr>, ContentLength = 14\<rparr>"

text \<open>
  The same response when reading its body fails after seven bytes (the connection is
  lost, or the body is shorter than the response declares).
\<close>

definition cut_off :: response where
  "cut_off =
     \<lparr>StatusCode = 404, RespHeader = Map.empty,
      RespBody = \<lparr>content = ''no such bucket'',
                  failure = Some (7, ErrorString ''unexpected EOF'')\<rparr>,
      ContentLength = 14\<rparr>"

text \<open>The reader of the upload in \<^verbatim>\<open>examples/main.go\<close>.\<close>

definition hello_reader :: Reader where
  "hello_reader = \<lparr>content = ''Hello, GTM Storage!'', failure = None\<rparr>"

text \<open>A client with no API key.\<close>

definition anonymous_client :: "unit Client" where
  "anonymous_client =
     NewClient \<lparr>BaseURL = ''http://127.0.0.1:3000'', APIKey = [], HTTPClient = None,
                Timeout = 0\<rparr>"

text \<open>The reader of the upload in the README.\<close>

definition hello_world :: Reader where
  "hello_world = \<lparr>content = ''Hello, World!'', failure = None\<rparr>"

text \<open>
  The answer to an upload: an ETag header and a text with a line for the preview link
  and a line for the thumbnail link. And an answer whose text has the thumbnail line
  only.
\<close>

definition quoted_etag :: string where
  "quoted_etag = [CHR 0x22] @ ''9b2cf535'' @ [CHR 0x22]"

definition upload_body :: string where
  "upload_body =
     ''upload ok'' @ [CHR 0x0A]
     @ previewLabel @ '' http://127.0.0.1:3000/api/test-bucket/test-file'' @ [CHR 0x0A]
     @ thumbnailLabel @ '' http://127.0.0.1:3000/thumb/test-bucket/test-file'' @ [CHR 0x0A]"

definition uploaded :: response where
  "uploaded =
     \<lparr>StatusCode = 200, RespHeader = [''Etag'' \<mapsto> [quoted_etag]],
      RespBody = \<lparr>content = upload_body, failure = None\<rparr>, ContentLength = 139\<rparr>"

definition thumbnail_only :: response where
  "thumbnail_only =
     \<lparr>StatusCode = 200, RespHeader = [''Etag'' \<mapsto> [quoted_etag]],
      RespBody = \<lparr>content = thumbnailLabel @ '' http://127.0.0.1:3000/thumb/test-bucket/my-image'',
                  failure = None\<rparr>,
      ContentLength = 65\<rparr>"

text \<open>An answer whose text is the preview label with the link right after the colon.\<close>

definition glued_preview :: response where
  "glued_preview =
     \<lparr>StatusCode = 200, RespHeader = [''Etag'' \<mapsto> [quoted_etag]],
      RespBody = \<lparr>content = previewLabel @ ''http://127.0.0.1:3000/api/test-bucket/my-image'',
                  failure = None\<rparr>,
      ContentLength = 59\<rparr>"

text \<open>
  Answers to a HEAD request: one with all the headers HeadObject reads, one that
  declares no length (\<^verbatim>\<open>ContentLength\<close> is then \<^verbatim>\<open>-1\<close> in an
  \<^verbatim>\<open>http.Response\<close>) and no date, and one whose date is not in the HTTP format.
\<close>

definition head_ok :: response where
  "head_ok =
     \<lparr>StatusCode = 200,
      RespHeader = [''Content-Type'' \<mapsto> [''text/plain''], ''Content-Length'' \<mapsto> [''19''],
                    ''Last-Modified'' \<mapsto> [''Wed, 21 Oct 2015 07:28:00 GMT''],
                    ''Etag'' \<mapsto> [quoted_etag]],
      RespBody = \<lparr>content = [], failure = None\<rparr>, ContentLength = 19\<rparr>"

definition head_without_length :: response where
  "head_without_length =
     \<lparr>StatusCode = 200, RespHeader = [''Content-Type'' \<mapsto> [''text/plain'']],
      RespBody = \<lparr>content = [], failure = None\<rparr>, ContentLength = - 1\<rparr>"

definition head_bad_date :: response where
  "head_bad_date =
     \<lparr>StatusCode = 200,
      RespHeader = [''Content-Length'' \<mapsto> [''19''],
                    ''Last-Modified'' \<mapsto> [''2015-10-21T07:28:00Z'']],
      RespBody = \<lparr>content = [], failure = None\<rparr>, ContentLength = 19\<rparr>"

text \<open>
  A listing of three objects, sent in answer to a request for the prefix
  \<^verbatim>\<open>photos/\<close> by a server that does not filter, and the decoding of its document.
\<close>

definition photo_a :: ObjectInfo where
  "photo_a = \<lparr>Key = ''photos/a.jpg'', Name = ''a.jpg'', ContentType = ''image/jpeg'',
               LastModified = zeroTime, ETag = ''a1'', Size = 10\<rparr>"

definition doc_c :: ObjectInfo where
  "doc_c = \<lparr>Key = ''docs/c.txt'', Name = ''c.txt'', ContentType = ''text/plain'',
             LastModified = zeroTime, ETag = ''c3'', Size = 3\<rparr>"

definition photo_b :: ObjectInfo where
  "photo_b = \<lparr>Key = ''photos/b.jpg'', Name = ''b.jpg'', ContentType = ''image/jpeg'',
               LastModified = zeroTime, ETag = ''b2'', Size = 20\<rparr>"

definition listing_xml :: string where
  "listing_xml = ''<ListBucketResult><Name>test-bucket</Name><Prefix>photos/</Prefix>''
     @ ''<Contents><Key>photos/a.jpg</Key><Name>a.jpg</Name><ContentType>image/jpeg</ContentType>''
     @ ''<LastModified>0001-01-01T00:00:00Z</LastModified><ETag>a1</ETag><Size>10</Size></Contents>''
     @ ''<Contents><Key>docs/c.txt</Key><Name>c.txt</Name><ContentType>text/plain</ContentType>''
     @ ''<LastModified>0001-01-01T00:00:00Z</LastModified><ETag>c3</ETag><Size>3</Size></Contents>''
     @ ''<Contents><Key>photos/b.jpg</Key><Name>b.jpg</Name><ContentType>image/jpeg</ContentType>''
     @ ''<LastModified>0001-01-01T00:00:00Z</LastModified><ETag>b2</ETag><Size>20</Size></Contents>''
     @ ''</ListBucketResult>''"

definition listing_decode :: "Reader \<Rightarrow> go_error + ListBucketResult" where
  "listing_decode body =
     (if content body = listing_xml
      then Inr \<lparr>Name_lb = ''test-bucket'', Prefix = ''photos/'',
                Contents = [photo_a, doc_c, photo_b]\<rparr>
      else Inl (ErrorString ''EOF''))"

definition listing :: response where
  "listing =
     \<lparr>StatusCode = 200, RespHeader = [''Content-Type'' \<mapsto> [''application/xml'']],
      RespBody = \<lparr>content = listing_xml, failure = None\<rparr>, ContentLength = - 1\<rparr>"

text \<open>
  A world for PutObjectFromFile. Its state is the list of the exchanges made so far, each
  with the client that made it. A HEAD request gets the answer of a file server, which
  has no body; every other request is an upload that succeeds. There is a local file.
\<close>

definition file_response :: response where
  "file_response =
     \<lparr>StatusCode = 200,
      RespHeader = [''Content-Type'' \<mapsto> [''image/jpeg''], ''Content-Length'' \<mapsto> [''48213'']],
      RespBody = \<lparr>content = [], failure = None\<rparr>, ContentLength = 48213\<rparr>"

definition file_server :: "(unit, (unit http_Client \<times> request) list) env" where
  "file_server =
     \<lparr>url_Parse = plain_url_Parse,
      Do = (\<lambda>hc req w.
              (if Method req = ''HEAD'' then Inr file_response else Inr uploaded,
               w @ [(hc, req)])),
      randomBoundary = (\<lambda>w. (''5a1f09c2'', w)),
      xml_Decode = no_listing,
      os_Open = (\<lambda>path w. (Inr \<lparr>content = ''bytes of the local file'', failure = None\<rparr>, w))\<rparr>"

section \<open>Basic facts\<close>

lemma DecodeRune_width: "0 < snd (DecodeRune (c # cs))"
  by (simp split: list.splits)

termination runes
proof (relation "measure length")
  show "wf (measure length)" by simp
next
  fix c :: char and cs :: string
  have "0 < snd (DecodeRune (c # cs))" by (rule DecodeRune_width)
  then show "(drop (snd (DecodeRune (c # cs))) (c # cs), c # cs) \<in> measure length"
    by (simp del: DecodeRune.simps)
qed

declare DecodeRune.simps [simp del]

text \<open>The equations that evaluate the embedding on concrete inputs.\<close>

lemmas header_eval = Header_Get_def Header_Set_def CanonicalMIMEHeaderKey_def
  validHeaderFieldByte_def toUpper_def toLower_def lower_letters_def upper_letters_def byte_def

lemmas request_eval = NewRequestWithContext_def removeEmptyPort_def hasPort_def
  LastIndexByte_def addAuth_def MakeBucket_request_def
  DeleteBucket_request_def PutObject_request_def GetObject_request_def GetObjectRange_request_def
  DeleteObject_request_def HeadObject_request_def ListObjects_request_def ReadAll_def

lemmas fixture_eval = example_client_def example_ctx_def answering_def no_listing_def
  NewClient_def TrimRight_def Second_def plain_url_Parse_def url_text_def text_before_def
  text_after_def

lemmas print_eval = Sprint_d_def digits.simps digit_char_def

lemmas fields_eval = Fields_def DecodeRune.simps byte_def IsSpace_def cont_def accept_lo_def
  accept_hi_def RuneError_def

lemmas time_eval = time_Parse_TimeFormat_def lookup_def shortDayNames_def shortMonthNames_def
  match_def match_byte_def or32_def byte_def getnum_def isDigit_def digitVal_def getyear_def
  atoi_digits_def fraction_def cutspace_def daysIn_def isLeap_def

lemmas upload_eval = quoted_etag_def upload_body_def uploaded_def previewLabel_def
  thumbnailLabel_def

section \<open>Claims\<close>

subsection \<open>C1: a status code outside the accepted set\<close>

text \<open>The decimal text of a status code determines the code.\<close>

lemma digit_char_value: "k < 10 \<Longrightarrow> isDigit (digit_char k) \<and> digitVal (digit_char k) = k"
proof -
  assume "k < 10"
  then have "k = 0 \<or> k = 1 \<or> k = 2 \<or> k = 3 \<or> k = 4 \<or> k = 5 \<or> k = 6 \<or> k = 7
      \<or> k = 8 \<or> k = 9"
    by arith
  then show ?thesis
    by (elim disjE) (simp_all add: digit_char_def digitVal_def isDigit_def byte_def)
qed

lemma atoi_digits_snoc: "atoi_digits (ds @ [d]) = 10 * atoi_digits ds + digitVal d"
  by (simp add: atoi_digits_def)

lemma digits_value: "atoi_digits (digits n) = n \<and> digits n \<noteq> [] \<and> list_all isDigit (digits n)"
proof (induction n rule: digits.induct)
  case (1 n)
  show ?case
  proof (cases "n < 10")
    case True
    then show ?thesis
      using digit_char_value [of n] by (simp add: digits.simps [of n] atoi_digits_def)
  next
    case False
    then have ih: "atoi_digits (digits (n div 10)) = n div 10"
      "list_all isDigit (digits (n div 10))"
      using "1.IH" by simp_all
    have d: "isDigit (digit_char (n mod 10)) \<and> digitVal (digit_char (n mod 10)) = n mod 10"
      by (rule digit_char_value) simp
    show ?thesis
      using False ih d by (simp add: digits.simps [of n] atoi_digits_snoc)
  qed
qed

lemma Sprint_d_inject: "Sprint_d a = Sprint_d b \<Longrightarrow> a = b"
proof -
  assume eq: "Sprint_d a = Sprint_d b"
  have minus: "\<not> isDigit (CHR ''-'')"
    by (simp add: isDigit_def byte_def)
  have nodash: "\<And>n ds. digits n \<noteq> CHR ''-'' # ds"
  proof
    fix n ds assume "digits n = CHR ''-'' # ds"
    then have "list_all isDigit (CHR ''-'' # ds)" using digits_value [of n] by simp
    with minus show False by simp
  qed
  show "a = b"
  proof (cases "a < 0")
    case True
    show ?thesis
    proof (cases "b < 0")
      case True
      with \<open>a < 0\<close> eq have "digits (nat (- a)) = digits (nat (- b))"
        by (simp add: Sprint_d_def)
      then have "nat (- a) = nat (- b)"
        using digits_value by metis
      with True \<open>a < 0\<close> show ?thesis by simp
    next
      case False
      with \<open>a < 0\<close> eq have "digits (nat b) = CHR ''-'' # digits (nat (- a))"
        by (simp add: Sprint_d_def)
      with nodash show ?thesis by blast
    qed
  next
    case False
    show ?thesis
    proof (cases "b < 0")
      case True
      with \<open>\<not> a < 0\<close> eq have "digits (nat a) = CHR ''-'' # digits (nat (- b))"
        by (simp add: Sprint_d_def)
      with nodash show ?thesis by blast
    next
      case False
      with \<open>\<not> a < 0\<close> eq have "digits (nat a) = digits (nat b)"
        by (simp add: Sprint_d_def)
      then have "nat a = nat b"
        using digits_value by metis
      with False \<open>\<not> a < 0\<close> show ?thesis by simp
    qed
  qed
qed

text \<open>
  C1, as the code has it. For every operation (MakeBucket, DeleteBucket, PutObject,
  GetObject, GetObjectRange, DeleteObject, HeadObject, ListObjects): when the exchange
  returns a response whose status code is outside the accepted set of the operation
  (200, and 206 as well for GetObjectRange only), the operation returns an error and no
  result. The message of the error is the operation's text, the text that
  \<^verbatim>\<open>io.ReadAll\<close> read from the response body, and the status code in decimal.
  The text read is the whole body when reading reaches its end, and the bytes before the
  failure when reading fails: the error of the reading is dropped.
\<close>

theorem status_outside_accepted_set:
  assumes exchange: "Do env (httpClient c) req w = (Inr resp, w')"
  shows
    "(MakeBucket_request env c ctx bucketName = Inr req \<and> StatusCode resp \<noteq> 200 \<longrightarrow>
        MakeBucket env c ctx bucketName w =
          (Inl (ErrorString (''failed to create bucket: '' @ fst (ReadAll (RespBody resp))
                  @ '' (status: '' @ Sprint_d (StatusCode resp) @ '')'')), w'))
     \<and> (DeleteBucket_request env c ctx bucketName = Inr req \<and> StatusCode resp \<noteq> 200 \<longrightarrow>
        DeleteBucket env c ctx bucketName w =
          (Inl (ErrorString (''failed to delete bucket: '' @ fst (ReadAll (RespBody resp))
                  @ '' (status: '' @ Sprint_d (StatusCode resp) @ '')'')), w'))
     \<and> (randomBoundary env w0 = (boundary, w)
          \<and> PutObject_request env c ctx bucketName objectKey reader filename boundary = Inr req
          \<and> StatusCode resp \<noteq> 200 \<longrightarrow>
        PutObject env c ctx bucketName objectKey reader filename w0 =
          (Inl (ErrorString (''failed to upload object: '' @ fst (ReadAll (RespBody resp))
                  @ '' (status: '' @ Sprint_d (StatusCode resp) @ '')'')), w'))
     \<and> (GetObject_request env c ctx bucketName objectKey = Inr req \<and> StatusCode resp \<noteq> 200 \<longrightarrow>
        GetObject env c ctx bucketName objectKey w =
          (Inl (ErrorString (''failed to get object: '' @ fst (ReadAll (RespBody resp))
                  @ '' (status: '' @ Sprint_d (StatusCode resp) @ '')'')), w'))
     \<and> (GetObjectRange_request env c ctx bucketName objectKey start end = Inr req
          \<and> StatusCode resp \<noteq> 200 \<and> StatusCode resp \<noteq> 206 \<longrightarrow>
        GetObjectRange env c ctx bucketName objectKey start end w =
          (Inl (ErrorString (''failed to get object: '' @ fst (ReadAll (RespBody resp))
                  @ '' (status: '' @ Sprint_d (StatusCode resp) @ '')'')), w'))
     \<and> (DeleteObject_request env c ctx bucketName objectKey = Inr req \<and> StatusCode resp \<noteq> 200 \<longrightarrow>
        DeleteObject env c ctx bucketName objectKey w =
          (Inl (ErrorString (''failed to delete object: '' @ fst (ReadAll (RespBody resp))
                  @ '' (status: '' @ Sprint_d (StatusCode resp) @ '')'')), w'))
     \<and> (HeadObject_request env c ctx bucketName objectKey = Inr req \<and> StatusCode resp \<noteq> 200 \<longrightarrow>
        HeadObject env c ctx bucketName objectKey w =
          (Inl (ErrorString (''failed to get object metadata: '' @ fst (ReadAll (RespBody resp))
                  @ '' (status: '' @ Sprint_d (StatusCode resp) @ '')'')), w'))
     \<and> (ListObjects_request env c ctx bucketName pre = Inr req \<and> StatusCode resp \<noteq> 200 \<longrightarrow>
        ListObjects env c ctx bucketName pre w =
          (Inl (ErrorString (''failed to list objects: '' @ fst (ReadAll (RespBody resp))
                  @ '' (status: '' @ Sprint_d (StatusCode resp) @ '')'')), w'))
     \<and> (failure (RespBody resp) = None \<longrightarrow>
        fst (ReadAll (RespBody resp)) = content (RespBody resp))
     \<and> (failure (RespBody resp) = Some (n, e) \<longrightarrow>
        fst (ReadAll (RespBody resp)) = take n (content (RespBody resp)))"
proof (intro conjI impI)
  assume "MakeBucket_request env c ctx bucketName = Inr req \<and> StatusCode resp \<noteq> 200"
  then show "MakeBucket env c ctx bucketName w =
          (Inl (ErrorString (''failed to create bucket: '' @ fst (ReadAll (RespBody resp))
                  @ '' (status: '' @ Sprint_d (StatusCode resp) @ '')'')), w')"
    by (simp add: MakeBucket_def exchange status_error_def)
next
  assume "DeleteBucket_request env c ctx bucketName = Inr req \<and> StatusCode resp \<noteq> 200"
  then show "DeleteBucket env c ctx bucketName w =
          (Inl (ErrorString (''failed to delete bucket: '' @ fst (ReadAll (RespBody resp))
                  @ '' (status: '' @ Sprint_d (StatusCode resp) @ '')'')), w')"
    by (simp add: DeleteBucket_def exchange status_error_def)
next
  assume "randomBoundary env w0 = (boundary, w)
          \<and> PutObject_request env c ctx bucketName objectKey reader filename boundary = Inr req
          \<and> StatusCode resp \<noteq> 200"
  then show "PutObject env c ctx bucketName objectKey reader filename w0 =
          (Inl (ErrorString (''failed to upload object: '' @ fst (ReadAll (RespBody resp))
                  @ '' (status: '' @ Sprint_d (StatusCode resp) @ '')'')), w')"
    by (simp add: PutObject_def exchange status_error_def)
next
  assume "GetObject_request env c ctx bucketName objectKey = Inr req \<and> StatusCode resp \<noteq> 200"
  then show "GetObject env c ctx bucketName objectKey w =
          (Inl (ErrorString (''failed to get object: '' @ fst (ReadAll (RespBody resp))
                  @ '' (status: '' @ Sprint_d (StatusCode resp) @ '')'')), w')"
    by (simp add: GetObject_def exchange status_error_def)
next
  assume "GetObjectRange_request env c ctx bucketName objectKey start end = Inr req
          \<and> StatusCode resp \<noteq> 200 \<and> StatusCode resp \<noteq> 206"
  then show "GetObjectRange env c ctx bucketName objectKey start end w =
          (Inl (ErrorString (''failed to get object: '' @ fst (ReadAll (RespBody resp))
                  @ '' (status: '' @ Sprint_d (StatusCode resp) @ '')'')), w')"
    by (simp add: GetObjectRange_def exchange status_error_def)
next
  assume "DeleteObject_request env c ctx bucketName objectKey = Inr req \<and> StatusCode resp \<noteq> 200"
  then show "DeleteObject env c ctx bucketName objectKey w =
          (Inl (ErrorString (''failed to delete object: '' @ fst (ReadAll (RespBody resp))
                  @ '' (status: '' @ Sprint_d (StatusCode resp) @ '')'')), w')"
    by (simp add: DeleteObject_def exchange status_error_def)
next
  assume "HeadObject_request env c ctx bucketName objectKey = Inr req \<and> StatusCode resp \<noteq> 200"
  then show "HeadObject env c ctx bucketName objectKey w =
          (Inl (ErrorString (''failed to get object metadata: '' @ fst (ReadAll (RespBody resp))
                  @ '' (status: '' @ Sprint_d (StatusCode resp) @ '')'')), w')"
    by (simp add: HeadObject_def exchange status_error_def)
next
  assume "ListObjects_request env c ctx bucketName pre = Inr req \<and> StatusCode resp \<noteq> 200"
  then show "ListObjects env c ctx bucketName pre w =
          (Inl (ErrorString (''failed to list objects: '' @ fst (ReadAll (RespBody resp))
                  @ '' (status: '' @ Sprint_d (StatusCode resp) @ '')'')), w')"
    by (simp add: ListObjects_def exchange status_error_def)
next
  assume "failure (RespBody resp) = None"
  then show "fst (ReadAll (RespBody resp)) = content (RespBody resp)"
    by (simp add: ReadAll_def)
next
  assume "failure (RespBody resp) = Some (n, e)"
  then show "fst (ReadAll (RespBody resp)) = take n (content (RespBody resp))"
    by (simp add: ReadAll_def)
qed

text \<open>The eight operations against a server that answers 404 with the body
  \<^verbatim>\<open>no such bucket\<close>, which is read to its end.\<close>

theorem status_outside_accepted_set_example:
  "MakeBucket (answering not_found no_listing) example_client example_ctx ''test-bucket'' 0 =
      (Inl (ErrorString ''failed to create bucket: no such bucket (status: 404)''), 1)
   \<and> DeleteBucket (answering not_found no_listing) example_client example_ctx ''test-bucket'' 0 =
      (Inl (ErrorString ''failed to delete bucket: no such bucket (status: 404)''), 1)
   \<and> PutObject (answering not_found no_listing) example_client example_ctx ''test-bucket'' ''test-file''
       hello_reader ''test.txt'' 0 =
      (Inl (ErrorString ''failed to upload object: no such bucket (status: 404)''), 1)
   \<and> GetObject (answering not_found no_listing) example_client example_ctx ''test-bucket'' ''test-file'' 0 =
      (Inl (ErrorString ''failed to get object: no such bucket (status: 404)''), 1)
   \<and> GetObjectRange (answering not_found no_listing) example_client example_ctx ''test-bucket''
       ''test-file'' 0 5 0 =
      (Inl (ErrorString ''failed to get object: no such bucket (status: 404)''), 1)
   \<and> DeleteObject (answering not_found no_listing) example_client example_ctx ''test-bucket'' ''test-file'' 0 =
      (Inl (ErrorString ''failed to delete object: no such bucket (status: 404)''), 1)
   \<and> HeadObject (answering not_found no_listing) example_client example_ctx ''test-bucket'' ''test-file'' 0 =
      (Inl (ErrorString ''failed to get object metadata: no such bucket (status: 404)''), 1)
   \<and> ListObjects (answering not_found no_listing) example_client example_ctx ''test-bucket'' ''test'' 0 =
      (Inl (ErrorString ''failed to list objects: no such bucket (status: 404)''), 1)
   \<and> fst (ReadAll (RespBody not_found)) = content (RespBody not_found)"
proof -
  let ?env = "answering not_found no_listing"
  have ex: "\<And>req. Do ?env (httpClient example_client) req 0 = (Inr not_found, 1)"
    by (simp add: answering_def)
  have rb: "randomBoundary ?env 0 = (''5a1f09c2'', 0)"
    by (simp add: answering_def)
  have code: "StatusCode not_found \<noteq> 200" "StatusCode not_found \<noteq> 206"
    by (simp_all add: not_found_def)
  have whole: "failure (RespBody not_found) = None"
    by (simp add: not_found_def)
  have shown: "fst (ReadAll (RespBody not_found)) = ''no such bucket''"
    "Sprint_d (StatusCode not_found) = ''404''"
    by (simp_all add: not_found_def print_eval ReadAll_def)
  let ?r = "projr (MakeBucket_request ?env example_client example_ctx ''test-bucket'')"
  have r0: "MakeBucket_request ?env example_client example_ctx ''test-bucket''
      = Inr ?r"
    by (simp add: request_eval fixture_eval hello_reader_def ReadAll_def)
  have c0: "MakeBucket ?env example_client example_ctx ''test-bucket'' 0 =
      (Inl (ErrorString ''failed to create bucket: no such bucket (status: 404)''), 1)"
    using status_outside_accepted_set
      [where env = ?env and c = example_client and ctx = example_ctx and w = 0
         and resp = not_found and w' = 1 and req = ?r
         and bucketName = "''test-bucket''"]
      r0 ex rb code shown
    by simp
  let ?r = "projr (DeleteBucket_request ?env example_client example_ctx ''test-bucket'')"
  have r1: "DeleteBucket_request ?env example_client example_ctx ''test-bucket''
      = Inr ?r"
    by (simp add: request_eval fixture_eval hello_reader_def ReadAll_def)
  have c1: "DeleteBucket ?env example_client example_ctx ''test-bucket'' 0 =
      (Inl (ErrorString ''failed to delete bucket: no such bucket (status: 404)''), 1)"
    using status_outside_accepted_set
      [where env = ?env and c = example_client and ctx = example_ctx and w = 0
         and resp = not_found and w' = 1 and req = ?r
         and bucketName = "''test-bucket''"]
      r1 ex rb code shown
    by simp
  let ?r = "projr (PutObject_request ?env example_client example_ctx ''test-bucket'' ''test-file''
                 hello_reader ''test.txt'' ''5a1f09c2'')"
  have r2: "PutObject_request ?env example_client example_ctx ''test-bucket'' ''test-file''
      hello_reader ''test.txt'' ''5a1f09c2''
      = Inr ?r"
    by (simp add: request_eval fixture_eval hello_reader_def ReadAll_def)
  have c2: "PutObject ?env example_client example_ctx ''test-bucket'' ''test-file''
      hello_reader ''test.txt'' 0 =
      (Inl (ErrorString ''failed to upload object: no such bucket (status: 404)''), 1)"
    using status_outside_accepted_set
      [where env = ?env and c = example_client and ctx = example_ctx and w = 0
         and resp = not_found and w' = 1 and req = ?r
         and bucketName = "''test-bucket''" and objectKey = "''test-file''"
         and reader = hello_reader and filename = "''test.txt''" and boundary = "''5a1f09c2''"
         and ?w0.0 = 0]
      r2 ex rb code shown
    by simp
  let ?r = "projr (GetObject_request ?env example_client example_ctx ''test-bucket'' ''test-file'')"
  have r3: "GetObject_request ?env example_client example_ctx ''test-bucket'' ''test-file''
      = Inr ?r"
    by (simp add: request_eval fixture_eval hello_reader_def ReadAll_def)
  have c3: "GetObject ?env example_client example_ctx ''test-bucket'' ''test-file'' 0 =
      (Inl (ErrorString ''failed to get object: no such bucket (status: 404)''), 1)"
    using status_outside_accepted_set
      [where env = ?env and c = example_client and ctx = example_ctx and w = 0
         and resp = not_found and w' = 1 and req = ?r
         and bucketName = "''test-bucket''" and objectKey = "''test-file''"]
      r3 ex rb code shown
    by simp
  let ?r = "projr (GetObjectRange_request ?env example_client example_ctx ''test-bucket''
                 ''test-file'' 0 5)"
  have r4: "GetObjectRange_request ?env example_client example_ctx ''test-bucket''
      ''test-file'' 0 5
      = Inr ?r"
    by (simp add: request_eval fixture_eval hello_reader_def ReadAll_def)
  have c4: "GetObjectRange ?env example_client example_ctx ''test-bucket''
      ''test-file'' 0 5 0 =
      (Inl (ErrorString ''failed to get object: no such bucket (status: 404)''), 1)"
    using status_outside_accepted_set
      [where env = ?env and c = example_client and ctx = example_ctx and w = 0
         and resp = not_found and w' = 1 and req = ?r
         and bucketName = "''test-bucket''" and objectKey = "''test-file''"
         and start = 0 and ?end = 5]
      r4 ex rb code shown
    by simp
  let ?r = "projr (DeleteObject_request ?env example_client example_ctx ''test-bucket'' ''test-file'')"
  have r5: "DeleteObject_request ?env example_client example_ctx ''test-bucket'' ''test-file''
      = Inr ?r"
    by (simp add: request_eval fixture_eval hello_reader_def ReadAll_def)
  have c5: "DeleteObject ?env example_client example_ctx ''test-bucket'' ''test-file'' 0 =
      (Inl (ErrorString ''failed to delete object: no such bucket (status: 404)''), 1)"
    using status_outside_accepted_set
      [where env = ?env and c = example_client and ctx = example_ctx and w = 0
         and resp = not_found and w' = 1 and req = ?r
         and bucketName = "''test-bucket''" and objectKey = "''test-file''"]
      r5 ex rb code shown
    by simp
  let ?r = "projr (HeadObject_request ?env example_client example_ctx ''test-bucket'' ''test-file'')"
  have r6: "HeadObject_request ?env example_client example_ctx ''test-bucket'' ''test-file''
      = Inr ?r"
    by (simp add: request_eval fixture_eval hello_reader_def ReadAll_def)
  have c6: "HeadObject ?env example_client example_ctx ''test-bucket'' ''test-file'' 0 =
      (Inl (ErrorString ''failed to get object metadata: no such bucket (status: 404)''), 1)"
    using status_outside_accepted_set
      [where env = ?env and c = example_client and ctx = example_ctx and w = 0
         and resp = not_found and w' = 1 and req = ?r
         and bucketName = "''test-bucket''" and objectKey = "''test-file''"]
      r6 ex rb code shown
    by simp
  let ?r = "projr (ListObjects_request ?env example_client example_ctx ''test-bucket'' ''test'')"
  have r7: "ListObjects_request ?env example_client example_ctx ''test-bucket'' ''test''
      = Inr ?r"
    by (simp add: request_eval fixture_eval hello_reader_def ReadAll_def)
  have c7: "ListObjects ?env example_client example_ctx ''test-bucket'' ''test'' 0 =
      (Inl (ErrorString ''failed to list objects: no such bucket (status: 404)''), 1)"
    using status_outside_accepted_set
      [where env = ?env and c = example_client and ctx = example_ctx and w = 0
         and resp = not_found and w' = 1 and req = ?r
         and bucketName = "''test-bucket''" and pre = "''test''"]
      r7 ex rb code shown
    by simp
  have c8: "fst (ReadAll (RespBody not_found)) = content (RespBody not_found)"
    using status_outside_accepted_set [OF ex [of undefined], THEN conjunct2, THEN conjunct2,
        THEN conjunct2, THEN conjunct2, THEN conjunct2, THEN conjunct2, THEN conjunct2,
        THEN conjunct2, THEN conjunct1] whole
    by blast
  show ?thesis
    using c0 c1 c2 c3 c4 c5 c6 c7 c8 by simp
qed

text \<open>
  C1 as it is stated fails: when reading the body fails after seven of its fourteen
  bytes, the error carries the seven bytes and not the full text of the body.
\<close>

theorem truncated_body_in_error:
  "MakeBucket (answering cut_off no_listing) example_client example_ctx ''test-bucket'' 0
     = (Inl (ErrorString ''failed to create bucket: no such (status: 404)''), 1)
   \<and> content (RespBody cut_off) = ''no such bucket''
   \<and> \<not> Contains ''failed to create bucket: no such (status: 404)''
           (content (RespBody cut_off))"
  by (simp add: MakeBucket_def status_error_def ReadAll_def request_eval fixture_eval
        cut_off_def print_eval)

subsection \<open>C8: trailing slashes of the base URL\<close>

lemma TrimRight_snoc_cut: "c \<in> set cutset \<Longrightarrow> TrimRight (s @ [c]) cutset = TrimRight s cutset"
  by (simp add: TrimRight_def)

lemma TrimRight_decompose: "s = TrimRight s [c] @ replicate (length s - length (TrimRight s [c])) c"
proof -
  define t where "t = takeWhile (\<lambda>x. x \<in> set [c]) (rev s)"
  define d where "d = dropWhile (\<lambda>x. x \<in> set [c]) (rev s)"
  have split: "rev s = t @ d"
    unfolding t_def d_def by simp
  have "\<forall>x \<in> set t. x = c"
    unfolding t_def by (auto dest: set_takeWhileD)
  then have tw: "t = replicate (length t) c"
    by (simp add: replicate_length_same)
  have "s = rev (t @ d)"
    using split by (metis rev_rev_ident)
  then have "s = rev d @ rev t" by simp
  moreover have "rev t = replicate (length t) c"
    using tw by (metis rev_replicate)
  moreover have "TrimRight s [c] = rev d"
    unfolding d_def TrimRight_def by simp
  ultimately have eq: "s = TrimRight s [c] @ replicate (length t) c" by simp
  have "length s = length (TrimRight s [c]) + length t"
    using arg_cong [OF eq, of length] by simp
  then have "length t = length s - length (TrimRight s [c])" by simp
  with eq show ?thesis by simp
qed

lemma TrimRight_no_trailing: "TrimRight s [c] = [] \<or> last (TrimRight s [c]) \<noteq> c"
proof (cases "dropWhile (\<lambda>x. x \<in> set [c]) (rev s)")
  case Nil
  then show ?thesis by (simp add: TrimRight_def)
next
  case (Cons y ys)
  then have "\<not> y \<in> set [c]"
    using hd_dropWhile [of "\<lambda>x. x \<in> set [c]" "rev s"] by simp
  with Cons show ?thesis by (simp add: TrimRight_def)
qed

text \<open>
  C8. NewClient strips all trailing \<^verbatim>\<open>/\<close> characters from the base URL: the base URL
  is the stored one followed by slashes only, and the stored one does not end in a slash.
  So a client built from \<open>b\<close> followed by a slash and a client built from \<open>b\<close> give the
  same GetObjectURL, which is the stripped base, \<^verbatim>\<open>/api/\<close>, the bucket, \<^verbatim>\<open>/\<close> and
  the key.
\<close>

theorem NewClient_strips_trailing_slashes:
  "GetObjectURL (NewClient (options\<lparr>BaseURL := b @ ''/''\<rparr>)) bucketName objectKey
     = GetObjectURL (NewClient (options\<lparr>BaseURL := b\<rparr>)) bucketName objectKey
   \<and> GetObjectURL (NewClient (options\<lparr>BaseURL := b\<rparr>)) bucketName objectKey
     = TrimRight b ''/'' @ ''/api/'' @ bucketName @ ''/'' @ objectKey
   \<and> b = baseURL (NewClient (options\<lparr>BaseURL := b\<rparr>))
           @ replicate (length b - length (baseURL (NewClient (options\<lparr>BaseURL := b\<rparr>)))) (CHR ''/'')
   \<and> (baseURL (NewClient (options\<lparr>BaseURL := b\<rparr>)) = []
        \<or> last (baseURL (NewClient (options\<lparr>BaseURL := b\<rparr>))) \<noteq> CHR ''/'')"
proof -
  have cut: "TrimRight (b @ ''/'') ''/'' = TrimRight b ''/''"
    by (rule TrimRight_snoc_cut) simp
  have base: "\<And>x. baseURL (NewClient (options\<lparr>BaseURL := x\<rparr>)) = TrimRight x ''/''"
    by (simp add: NewClient_def)
  show ?thesis
    using TrimRight_decompose [of b "CHR ''/''"] TrimRight_no_trailing [of b "CHR ''/''"]
    by (simp add: GetObjectURL_def base cut)
qed

text \<open>The base URL of \<^verbatim>\<open>examples/main.go\<close> written with two trailing slashes.\<close>

theorem NewClient_strips_trailing_slashes_example:
  "GetObjectURL (NewClient \<lparr>BaseURL = ''http://127.0.0.1:3000//'', APIKey = ''sssss'',
       HTTPClient = (None :: unit http_Client option), Timeout = 0\<rparr>) ''test-bucket'' ''test-file''
     = ''http://127.0.0.1:3000/api/test-bucket/test-file''"
  using NewClient_strips_trailing_slashes
    [where options = "\<lparr>BaseURL = [], APIKey = ''sssss'',
                       HTTPClient = (None :: unit http_Client option), Timeout = 0\<rparr>"
       and b = "''http://127.0.0.1:3000/''" and bucketName = "''test-bucket''"
       and objectKey = "''test-file''"]
  by (simp add: TrimRight_def)

subsection \<open>C2: the Range header of GetObjectRange\<close>

text \<open>
  C2. The request that GetObjectRange builds carries the header
  \<^verbatim>\<open>Range: bytes=<start>-<end>\<close> if and only if \<open>start > 0\<close> or \<open>end > 0\<close>, and it
  carries no other header. For \<open>start = 0\<close> and \<open>end = 0\<close> the request has no Range
  header and is the request of GetObject, an ordinary full read.
\<close>

theorem GetObjectRange_sets_Range:
  assumes built: "GetObjectRange_request env c ctx bucketName objectKey start end = Inr req"
  shows
    "Header req =
       (if 0 < start \<or> 0 < end
        then [''Range'' \<mapsto> [''bytes='' @ Sprint_d start @ ''-'' @ Sprint_d end]]
        else Map.empty)
     \<and> (start = 0 \<and> end = 0 \<longrightarrow> GetObject_request env c ctx bucketName objectKey = Inr req)"
proof -
  have key: "CanonicalMIMEHeaderKey ''Range'' = ''Range''"
    by (simp add: header_eval)
  show ?thesis
    using built
    by (auto simp: GetObjectRange_request_def GetObject_request_def NewRequestWithContext_def
          Header_Set_def key split: option.splits sum.splits)
qed

text \<open>The range read of \<^verbatim>\<open>examples/main.go\<close> (bytes 0 to 5), and the read from 0 to 0.\<close>

theorem GetObjectRange_sets_Range_example:
  "Header (projr (GetObjectRange_request (answering not_found no_listing) example_client example_ctx
                    ''test-bucket'' ''test-file'' 0 5))
     = [''Range'' \<mapsto> [''bytes=0-5'']]
   \<and> Header (projr (GetObjectRange_request (answering not_found no_listing) example_client example_ctx
                    ''test-bucket'' ''test-file'' 0 0)) = Map.empty
   \<and> GetObject_request (answering not_found no_listing) example_client example_ctx ''test-bucket'' ''test-file''
     = GetObjectRange_request (answering not_found no_listing) example_client example_ctx
         ''test-bucket'' ''test-file'' 0 0"
proof -
  let ?env = "answering not_found no_listing"
  have r5: "GetObjectRange_request ?env example_client example_ctx ''test-bucket'' ''test-file'' 0 5
      = Inr (projr (GetObjectRange_request ?env example_client example_ctx ''test-bucket'' ''test-file'' 0 5))"
    by (simp add: request_eval fixture_eval)
  have r0: "GetObjectRange_request ?env example_client example_ctx ''test-bucket'' ''test-file'' 0 0
      = Inr (projr (GetObjectRange_request ?env example_client example_ctx ''test-bucket'' ''test-file'' 0 0))"
    by (simp add: request_eval fixture_eval)
  have shown: "Sprint_d 0 = ''0''" "Sprint_d 5 = ''5''"
    by (simp_all add: print_eval)
  have a: "Header (projr (GetObjectRange_request ?env example_client example_ctx
                    ''test-bucket'' ''test-file'' 0 5)) = [''Range'' \<mapsto> [''bytes=0-5'']]"
    using GetObjectRange_sets_Range [OF r5] shown by simp
  have b: "Header (projr (GetObjectRange_request ?env example_client example_ctx
                    ''test-bucket'' ''test-file'' 0 0)) = Map.empty
      \<and> GetObject_request ?env example_client example_ctx ''test-bucket'' ''test-file''
        = GetObjectRange_request ?env example_client example_ctx ''test-bucket'' ''test-file'' 0 0"
    using GetObjectRange_sets_Range [OF r0] r0 by simp
  show ?thesis using a b by simp
qed

subsection \<open>C7: the two authentication headers\<close>

text \<open>
  C7. For every request built by MakeBucket, DeleteBucket, PutObject and DeleteObject:
  when the API key of the client is not empty the request carries the header
  Authorization with the value \<^verbatim>\<open>Bearer\<close>, a space and the key, and the header
  X-API-Key with the key as its value; when the API key is empty the request carries
  neither header.
\<close>

theorem writes_carry_both_auth_headers:
  assumes built:
    "MakeBucket_request env c ctx bucketName = Inr req
     \<or> DeleteBucket_request env c ctx bucketName = Inr req
     \<or> PutObject_request env c ctx bucketName objectKey reader filename boundary = Inr req
     \<or> DeleteObject_request env c ctx bucketName objectKey = Inr req"
  shows
    "(apiKey c \<noteq> [] \<longrightarrow>
        Header req (CanonicalMIMEHeaderKey ''Authorization'') = Some [''Bearer '' @ apiKey c]
        \<and> Header req (CanonicalMIMEHeaderKey ''X-API-Key'') = Some [apiKey c])
     \<and> (apiKey c = [] \<longrightarrow>
        Header req (CanonicalMIMEHeaderKey ''Authorization'') = None
        \<and> Header req (CanonicalMIMEHeaderKey ''X-API-Key'') = None)"
proof -
  have keys: "CanonicalMIMEHeaderKey ''Authorization'' = ''Authorization''"
    "CanonicalMIMEHeaderKey ''X-API-Key'' = ''X-Api-Key''"
    "CanonicalMIMEHeaderKey ''Content-Type'' = ''Content-Type''"
    by (simp_all add: header_eval)
  have fresh: "\<And>method url body r. NewRequestWithContext env ctx method url body = Inr r
      \<Longrightarrow> Header r = Map.empty"
    by (auto simp: NewRequestWithContext_def split: option.splits sum.splits)
  have auth: "\<And>r. Header r ''Authorization'' = None \<Longrightarrow> Header r ''X-Api-Key'' = None \<Longrightarrow>
      (apiKey c \<noteq> [] \<longrightarrow>
        Header (addAuth c r) ''Authorization'' = Some [''Bearer '' @ apiKey c]
        \<and> Header (addAuth c r) ''X-Api-Key'' = Some [apiKey c])
     \<and> (apiKey c = [] \<longrightarrow>
        Header (addAuth c r) ''Authorization'' = None \<and> Header (addAuth c r) ''X-Api-Key'' = None)"
    by (simp add: addAuth_def Header_Set_def keys)
  from built consider
      (mk) "MakeBucket_request env c ctx bucketName = Inr req"
    | (rm) "DeleteBucket_request env c ctx bucketName = Inr req"
    | (put) "PutObject_request env c ctx bucketName objectKey reader filename boundary = Inr req"
    | (del) "DeleteObject_request env c ctx bucketName objectKey = Inr req"
    by blast
  then show ?thesis
  proof cases
    case mk
    then obtain r where
      "NewRequestWithContext env ctx ''POST'' (baseURL c @ ''/api/'' @ bucketName) NoBody = Inr r"
      and "req = addAuth c r"
      by (auto simp: MakeBucket_request_def split: sum.splits)
    then show ?thesis using auth [of r] fresh [of _ _ _ r] by (simp add: keys)
  next
    case rm
    then obtain r where
      "NewRequestWithContext env ctx ''DELETE'' (baseURL c @ ''/api/'' @ bucketName) NoBody = Inr r"
      and "req = addAuth c r"
      by (auto simp: DeleteBucket_request_def split: sum.splits)
    then show ?thesis using auth [of r] fresh [of _ _ _ r] by (simp add: keys)
  next
    case put
    then obtain r where "NewRequestWithContext env ctx ''PUT''
          (baseURL c @ ''/api/'' @ bucketName @ ''/'' @ objectKey)
          (MultipartBody boundary [FormFile ''file'' filename (content reader)]) = Inr r"
      and "req = addAuth c (r\<lparr>Header := Header_Set (Header r) ''Content-Type''
                               (FormDataContentType boundary)\<rparr>)"
      by (auto simp: PutObject_request_def ReadAll_def split: sum.splits option.splits prod.splits)
    then show ?thesis
      using auth [of "r\<lparr>Header := Header_Set (Header r) ''Content-Type''
                               (FormDataContentType boundary)\<rparr>"] fresh [of _ _ _ r]
      by (simp add: keys Header_Set_def)
  next
    case del
    then obtain r where "NewRequestWithContext env ctx ''DELETE''
          (baseURL c @ ''/api/'' @ bucketName @ ''/'' @ objectKey) NoBody = Inr r"
      and "req = addAuth c r"
      by (auto simp: DeleteObject_request_def split: sum.splits)
    then show ?thesis using auth [of r] fresh [of _ _ _ r] by (simp add: keys)
  qed
qed

text \<open>The four operations for the client of \<^verbatim>\<open>examples/main.go\<close>, whose key is
  \<^verbatim>\<open>sssss\<close>, and for a client without a key.\<close>

theorem writes_carry_both_auth_headers_example:
  "Header (projr (MakeBucket_request (answering not_found no_listing) example_client example_ctx ''test-bucket''))
       ''Authorization'' = Some [''Bearer sssss'']
   \<and> Header (projr (MakeBucket_request (answering not_found no_listing) example_client example_ctx ''test-bucket''))
       ''X-Api-Key'' = Some [''sssss'']
   \<and> Header (projr (DeleteBucket_request (answering not_found no_listing) example_client example_ctx ''test-bucket''))
       ''Authorization'' = Some [''Bearer sssss'']
   \<and> Header (projr (DeleteBucket_request (answering not_found no_listing) example_client example_ctx ''test-bucket''))
       ''X-Api-Key'' = Some [''sssss'']
   \<and> Header (projr (PutObject_request (answering not_found no_listing) example_client example_ctx ''test-bucket''
                  ''test-file'' hello_reader ''test.txt'' ''5a1f09c2''))
       ''Authorization'' = Some [''Bearer sssss'']
   \<and> Header (projr (PutObject_request (answering not_found no_listing) example_client example_ctx ''test-bucket''
                  ''test-file'' hello_reader ''test.txt'' ''5a1f09c2''))
       ''X-Api-Key'' = Some [''sssss'']
   \<and> Header (projr (DeleteObject_request (answering not_found no_listing) example_client example_ctx ''test-bucket''
                  ''test-file''))
       ''Authorization'' = Some [''Bearer sssss'']
   \<and> Header (projr (DeleteObject_request (answering not_found no_listing) example_client example_ctx ''test-bucket''
                  ''test-file''))
       ''X-Api-Key'' = Some [''sssss'']
   \<and> Header (projr (MakeBucket_request (answering not_found no_listing) anonymous_client example_ctx ''test-bucket''))
       ''Authorization'' = None
   \<and> Header (projr (MakeBucket_request (answering not_found no_listing) anonymous_client example_ctx ''test-bucket''))
       ''X-Api-Key'' = None
   \<and> Header (projr (DeleteBucket_request (answering not_found no_listing) anonymous_client example_ctx ''test-bucket''))
       ''Authorization'' = None
   \<and> Header (projr (DeleteBucket_request (answering not_found no_listing) anonymous_client example_ctx ''test-bucket''))
       ''X-Api-Key'' = None
   \<and> Header (projr (PutObject_request (answering not_found no_listing) anonymous_client example_ctx ''test-bucket''
                  ''test-file'' hello_reader ''test.txt'' ''5a1f09c2''))
       ''Authorization'' = None
   \<and> Header (projr (PutObject_request (answering not_found no_listing) anonymous_client example_ctx ''test-bucket''
                  ''test-file'' hello_reader ''test.txt'' ''5a1f09c2''))
       ''X-Api-Key'' = None
   \<and> Header (projr (DeleteObject_request (answering not_found no_listing) anonymous_client example_ctx ''test-bucket''
                  ''test-file''))
       ''Authorization'' = None
   \<and> Header (projr (DeleteObject_request (answering not_found no_listing) anonymous_client example_ctx ''test-bucket''
                  ''test-file''))
       ''X-Api-Key'' = None"
proof -
  let ?env = "answering not_found no_listing"
  have keys: "CanonicalMIMEHeaderKey ''Authorization'' = ''Authorization''"
    "CanonicalMIMEHeaderKey ''X-API-Key'' = ''X-Api-Key''"
    by (simp_all add: header_eval)
  have key_k: "apiKey example_client = ''sssss''"
    by (simp add: fixture_eval)
  have key_a: "apiKey anonymous_client = []"
    by (simp add: fixture_eval anonymous_client_def)
  let ?r = "projr (MakeBucket_request ?env example_client example_ctx ''test-bucket'')"
  have r_mk_k: "MakeBucket_request ?env example_client example_ctx ''test-bucket''
      = Inr ?r"
    by (simp add: request_eval fixture_eval anonymous_client_def hello_reader_def)
  have mk_k: "Header ?r ''Authorization'' = Some [''Bearer sssss''] \<and> Header ?r ''X-Api-Key'' = Some [''sssss'']"
    using writes_carry_both_auth_headers
      [where env = ?env and c = example_client and ctx = example_ctx and req = ?r
         and bucketName = "''test-bucket''"]
      r_mk_k keys key_k
    by simp
  let ?r = "projr (DeleteBucket_request ?env example_client example_ctx ''test-bucket'')"
  have r_rm_k: "DeleteBucket_request ?env example_client example_ctx ''test-bucket''
      = Inr ?r"
    by (simp add: request_eval fixture_eval anonymous_client_def hello_reader_def)
  have rm_k: "Header ?r ''Authorization'' = Some [''Bearer sssss''] \<and> Header ?r ''X-Api-Key'' = Some [''sssss'']"
    using writes_carry_both_auth_headers
      [where env = ?env and c = example_client and ctx = example_ctx and req = ?r
         and bucketName = "''test-bucket''"]
      r_rm_k keys key_k
    by simp
  let ?r = "projr (PutObject_request ?env example_client example_ctx ''test-bucket''
                     ''test-file'' hello_reader ''test.txt'' ''5a1f09c2'')"
  have r_put_k: "PutObject_request ?env example_client example_ctx ''test-bucket''
                ''test-file'' hello_reader ''test.txt'' ''5a1f09c2''
      = Inr ?r"
    by (simp add: request_eval fixture_eval anonymous_client_def hello_reader_def)
  have put_k: "Header ?r ''Authorization'' = Some [''Bearer sssss''] \<and> Header ?r ''X-Api-Key'' = Some [''sssss'']"
    using writes_carry_both_auth_headers
      [where env = ?env and c = example_client and ctx = example_ctx and req = ?r
         and bucketName = "''test-bucket''" and objectKey = "''test-file''"
         and reader = hello_reader and filename = "''test.txt''" and boundary = "''5a1f09c2''"]
      r_put_k keys key_k
    by simp
  let ?r = "projr (DeleteObject_request ?env example_client example_ctx ''test-bucket''
                     ''test-file'')"
  have r_del_k: "DeleteObject_request ?env example_client example_ctx ''test-bucket''
                ''test-file''
      = Inr ?r"
    by (simp add: request_eval fixture_eval anonymous_client_def hello_reader_def)
  have del_k: "Header ?r ''Authorization'' = Some [''Bearer sssss''] \<and> Header ?r ''X-Api-Key'' = Some [''sssss'']"
    using writes_carry_both_auth_headers
      [where env = ?env and c = example_client and ctx = example_ctx and req = ?r
         and bucketName = "''test-bucket''" and objectKey = "''test-file''"]
      r_del_k keys key_k
    by simp
  let ?r = "projr (MakeBucket_request ?env anonymous_client example_ctx ''test-bucket'')"
  have r_mk_a: "MakeBucket_request ?env anonymous_client example_ctx ''test-bucket''
      = Inr ?r"
    by (simp add: request_eval fixture_eval anonymous_client_def hello_reader_def)
  have mk_a: "Header ?r ''Authorization'' = None \<and> Header ?r ''X-Api-Key'' = None"
    using writes_carry_both_auth_headers
      [where env = ?env and c = anonymous_client and ctx = example_ctx and req = ?r
         and bucketName = "''test-bucket''"]
      r_mk_a keys key_a
    by simp
  let ?r = "projr (DeleteBucket_request ?env anonymous_client example_ctx ''test-bucket'')"
  have r_rm_a: "DeleteBucket_request ?env anonymous_client example_ctx ''test-bucket''
      = Inr ?r"
    by (simp add: request_eval fixture_eval anonymous_client_def hello_reader_def)
  have rm_a: "Header ?r ''Authorization'' = None \<and> Header ?r ''X-Api-Key'' = None"
    using writes_carry_both_auth_headers
      [where env = ?env and c = anonymous_client and ctx = example_ctx and req = ?r
         and bucketName = "''test-bucket''"]
      r_rm_a keys key_a
    by simp
  let ?r = "projr (PutObject_request ?env anonymous_client example_ctx ''test-bucket''
                     ''test-file'' hello_reader ''test.txt'' ''5a1f09c2'')"
  have r_put_a: "PutObject_request ?env anonymous_client example_ctx ''test-bucket''
                ''test-file'' hello_reader ''test.txt'' ''5a1f09c2''
      = Inr ?r"
    by (simp add: request_eval fixture_eval anonymous_client_def hello_reader_def)
  have put_a: "Header ?r ''Authorization'' = None \<and> Header ?r ''X-Api-Key'' = None"
    using writes_carry_both_auth_headers
      [where env = ?env and c = anonymous_client and ctx = example_ctx and req = ?r
         and bucketName = "''test-bucket''" and objectKey = "''test-file''"
         and reader = hello_reader and filename = "''test.txt''" and boundary = "''5a1f09c2''"]
      r_put_a keys key_a
    by simp
  let ?r = "projr (DeleteObject_request ?env anonymous_client example_ctx ''test-bucket''
                     ''test-file'')"
  have r_del_a: "DeleteObject_request ?env anonymous_client example_ctx ''test-bucket''
                ''test-file''
      = Inr ?r"
    by (simp add: request_eval fixture_eval anonymous_client_def hello_reader_def)
  have del_a: "Header ?r ''Authorization'' = None \<and> Header ?r ''X-Api-Key'' = None"
    using writes_carry_both_auth_headers
      [where env = ?env and c = anonymous_client and ctx = example_ctx and req = ?r
         and bucketName = "''test-bucket''" and objectKey = "''test-file''"]
      r_del_a keys key_a
    by simp
  show ?thesis
    using mk_k rm_k put_k del_k mk_a rm_a put_a del_a by simp
qed

subsection \<open>C4: the links of an upload\<close>

lemma HasPrefix_iff: "HasPrefix s p \<longleftrightarrow> (\<exists>q. s = p @ q)"
  by (induction s p rule: HasPrefix.induct) auto

lemma Contains_iff: "Contains s sub \<longleftrightarrow> (\<exists>p q. s = p @ sub @ q)"
proof (induction s)
  case Nil
  then show ?case by simp
next
  case (Cons c cs)
  show ?case
  proof
    assume "Contains (c # cs) sub"
    then consider "HasPrefix (c # cs) sub" | "Contains cs sub" by auto
    then show "\<exists>p q. c # cs = p @ sub @ q"
    proof cases
      case 1
      then obtain q where "c # cs = sub @ q" using HasPrefix_iff by blast
      then have "c # cs = [] @ sub @ q" by simp
      then show ?thesis by blast
    next
      case 2
      then obtain p q where "cs = p @ sub @ q" using Cons.IH by blast
      then have "c # cs = (c # p) @ sub @ q" by simp
      then show ?thesis by blast
    qed
  next
    assume "\<exists>p q. c # cs = p @ sub @ q"
    then obtain p q where eq: "c # cs = p @ sub @ q" by blast
    show "Contains (c # cs) sub"
    proof (cases p)
      case Nil
      with eq have "HasPrefix (c # cs) sub" using HasPrefix_iff by auto
      then show ?thesis by simp
    next
      case (Cons a p')
      with eq have "cs = p' @ sub @ q" by simp
      then have "Contains cs sub" using Cons.IH by blast
      then show ?thesis by simp
    qed
  qed
qed

lemma Split_not_Nil: "Split s c \<noteq> []"
  by (induction s) (auto split: list.splits)

lemma Split_first_piece: "Split s c = h # t \<Longrightarrow> \<exists>q. s = h @ q"
proof (induction s arbitrary: h t)
  case Nil
  then show ?case by simp
next
  case (Cons x xs)
  show ?case
  proof (cases "x = c")
    case True
    with Cons.prems have "h = []" by simp
    then show ?thesis by simp
  next
    case False
    obtain h' t' where sp: "Split xs c = h' # t'"
      using Split_not_Nil [of xs c] by (cases "Split xs c") auto
    with False Cons.prems have "h = x # h'" by simp
    moreover obtain q where "xs = h' @ q" using Cons.IH [OF sp] by blast
    ultimately have "x # xs = h @ q" by simp
    then show ?thesis by blast
  qed
qed

lemma Split_piece: "l \<in> set (Split s c) \<Longrightarrow> \<exists>p q. s = p @ l @ q"
proof (induction s arbitrary: l)
  case Nil
  then show ?case by simp
next
  case (Cons x xs)
  obtain h t where sp: "Split xs c = h # t"
    using Split_not_Nil [of xs c] by (cases "Split xs c") auto
  show ?case
  proof (cases "x = c")
    case True
    with Cons.prems consider "l = []" | "l \<in> set (Split xs c)" by auto
    then show ?thesis
    proof cases
      case 1
      then have "x # xs = [] @ l @ (x # xs)" by simp
      then show ?thesis by blast
    next
      case 2
      then obtain p q where "xs = p @ l @ q" using Cons.IH by blast
      then have "x # xs = (x # p) @ l @ q" by simp
      then show ?thesis by blast
    qed
  next
    case False
    with Cons.prems sp consider "l = x # h" | "l \<in> set t" by auto
    then show ?thesis
    proof cases
      case 1
      obtain q where "xs = h @ q" using Split_first_piece [OF sp] by blast
      with 1 have "x # xs = [] @ l @ q" by simp
      then show ?thesis by blast
    next
      case 2
      with sp have "l \<in> set (Split xs c)" by simp
      then obtain p q where "xs = p @ l @ q" using Cons.IH by blast
      then have "x # xs = (x # p) @ l @ q" by simp
      then show ?thesis by blast
    qed
  qed
qed

lemma Contains_piece:
  assumes "l \<in> set (Split s c)" and "Contains l sub"
  shows "Contains s sub"
proof -
  obtain p q where s: "s = p @ l @ q" using Split_piece [OF assms(1)] by blast
  obtain p' q' where l: "l = p' @ sub @ q'" using assms(2) Contains_iff by blast
  have "s = (p @ p') @ sub @ (q' @ q)" using s l by simp
  then show ?thesis using Contains_iff by blast
qed

lemma labelled_lines_Nil: "\<not> Contains bodyStr label \<Longrightarrow> labelled_lines label bodyStr = []"
  unfolding labelled_lines_def filter_empty_conv
  using Contains_piece by blast

lemma last_part: "Suc 0 < length xs \<Longrightarrow> xs ! (length xs - Suc 0) = last xs"
proof -
  assume "Suc 0 < length xs"
  then have "xs \<noteq> []" by auto
  then show ?thesis by (simp add: last_conv_nth)
qed

lemma scan_line_PreviewURL:
  "PreviewURL (scan_line r l) =
     (if Contains l previewLabel \<and> 1 < length (Fields l) then last (Fields l) else PreviewURL r)"
  by (simp add: scan_line_def Let_def last_part)

lemma scan_line_ThumbnailURL:
  "ThumbnailURL (scan_line r l) =
     (if Contains l thumbnailLabel \<and> 1 < length (Fields l) then last (Fields l)
      else ThumbnailURL r)"
  by (simp add: scan_line_def Let_def last_part)

lemma foldl_scan_line_PreviewURL:
  "PreviewURL (foldl scan_line r ls) =
     (if filter (\<lambda>l. Contains l previewLabel \<and> 1 < length (Fields l)) ls = [] then PreviewURL r
      else last (Fields (last (filter (\<lambda>l. Contains l previewLabel \<and> 1 < length (Fields l)) ls))))"
  by (induction ls rule: rev_induct) (simp_all add: scan_line_PreviewURL)

lemma foldl_scan_line_ThumbnailURL:
  "ThumbnailURL (foldl scan_line r ls) =
     (if filter (\<lambda>l. Contains l thumbnailLabel \<and> 1 < length (Fields l)) ls = []
      then ThumbnailURL r
      else last (Fields (last (filter (\<lambda>l. Contains l thumbnailLabel \<and> 1 < length (Fields l)) ls))))"
  by (induction ls rule: rev_induct) (simp_all add: scan_line_ThumbnailURL)

lemma extract_URLs_PreviewURL:
  "PreviewURL (extract_URLs bodyStr r) =
     (if Contains bodyStr previewLabel \<and> labelled_lines previewLabel bodyStr \<noteq> []
      then last (Fields (last (labelled_lines previewLabel bodyStr)))
      else PreviewURL r)"
  by (simp add: extract_URLs_def foldl_scan_line_PreviewURL labelled_lines_def)

lemma extract_URLs_ThumbnailURL:
  "ThumbnailURL (extract_URLs bodyStr r) =
     (if Contains bodyStr previewLabel \<and> labelled_lines thumbnailLabel bodyStr \<noteq> []
      then last (Fields (last (labelled_lines thumbnailLabel bodyStr)))
      else ThumbnailURL r)"
  by (simp add: extract_URLs_def foldl_scan_line_ThumbnailURL labelled_lines_def)

lemma PutObject_success:
  assumes drawn: "randomBoundary env w = (boundary, w1)"
    and built: "PutObject_request env c ctx bucketName objectKey reader filename boundary = Inr req"
    and exchange: "Do env (httpClient c) req w1 = (Inr resp, w2)"
    and success: "PutObject env c ctx bucketName objectKey reader filename w = (Inr result, w')"
  shows "result = extract_URLs (content (RespBody resp))
                    \<lparr>Key_up = objectKey, ETag_up = Header_Get (RespHeader resp) ''ETag'',
                     PreviewURL = [], ThumbnailURL = []\<rparr>"
  using drawn built exchange success
  by (auto simp: PutObject_def ReadAll_def split: if_splits option.splits)

text \<open>
  C4, as the code has it. For every successful PutObject call the lines of the
  response body are searched only when the body contains the preview label. Then the
  preview URL is the last white-space separated field of the last line that contains the
  preview label and has more than one field, and the thumbnail URL is the same for the
  thumbnail label. A field is empty when there is no such line; both fields are empty
  when the preview label does not occur in the body, and the thumbnail URL is empty when
  the thumbnail label does not occur in it.
\<close>

theorem PutObject_links:
  assumes drawn: "randomBoundary env w = (boundary, w1)"
    and built: "PutObject_request env c ctx bucketName objectKey reader filename boundary = Inr req"
    and exchange: "Do env (httpClient c) req w1 = (Inr resp, w2)"
    and success: "PutObject env c ctx bucketName objectKey reader filename w = (Inr result, w')"
  shows
    "PreviewURL result =
       (if Contains (content (RespBody resp)) previewLabel
           \<and> labelled_lines previewLabel (content (RespBody resp)) \<noteq> []
        then last (Fields (last (labelled_lines previewLabel (content (RespBody resp)))))
        else [])
     \<and> ThumbnailURL result =
       (if Contains (content (RespBody resp)) previewLabel
           \<and> labelled_lines thumbnailLabel (content (RespBody resp)) \<noteq> []
        then last (Fields (last (labelled_lines thumbnailLabel (content (RespBody resp)))))
        else [])
     \<and> (\<not> Contains (content (RespBody resp)) previewLabel \<longrightarrow>
          PreviewURL result = [] \<and> ThumbnailURL result = [])
     \<and> (\<not> Contains (content (RespBody resp)) thumbnailLabel \<longrightarrow> ThumbnailURL result = [])"
proof -
  have r: "result = extract_URLs (content (RespBody resp))
                    \<lparr>Key_up = objectKey, ETag_up = Header_Get (RespHeader resp) ''ETag'',
                     PreviewURL = [], ThumbnailURL = []\<rparr>"
    by (rule PutObject_success [OF drawn built exchange success])
  show ?thesis
    unfolding r
    by (simp add: extract_URLs_PreviewURL extract_URLs_ThumbnailURL labelled_lines_Nil)
qed

text \<open>An upload answered with both lines.\<close>

theorem PutObject_links_example:
  "PutObject (answering uploaded no_listing) example_client example_ctx ''test-bucket'' ''test-file''
       hello_reader ''test.txt'' 0
     = (Inr \<lparr>Key_up = ''test-file'', ETag_up = quoted_etag,
              PreviewURL = ''http://127.0.0.1:3000/api/test-bucket/test-file'',
              ThumbnailURL = ''http://127.0.0.1:3000/thumb/test-bucket/test-file''\<rparr>, 1)
   \<and> last (Fields (last (labelled_lines previewLabel upload_body)))
     = ''http://127.0.0.1:3000/api/test-bucket/test-file''
   \<and> last (Fields (last (labelled_lines thumbnailLabel upload_body)))
     = ''http://127.0.0.1:3000/thumb/test-bucket/test-file''"
proof -
  let ?env = "answering uploaded no_listing"
  let ?req = "projr (PutObject_request ?env example_client example_ctx ''test-bucket'' ''test-file''
                       hello_reader ''test.txt'' ''5a1f09c2'')"
  let ?result = "\<lparr>Key_up = ''test-file'', ETag_up = quoted_etag,
              PreviewURL = ''http://127.0.0.1:3000/api/test-bucket/test-file'',
              ThumbnailURL = ''http://127.0.0.1:3000/thumb/test-bucket/test-file''\<rparr>"
  have drawn: "randomBoundary ?env 0 = (''5a1f09c2'', 0)"
    by (simp add: answering_def)
  have built: "PutObject_request ?env example_client example_ctx ''test-bucket'' ''test-file''
                 hello_reader ''test.txt'' ''5a1f09c2'' = Inr ?req"
    by (simp add: request_eval fixture_eval hello_reader_def)
  have exchange: "Do ?env (httpClient example_client) ?req 0 = (Inr uploaded, 1)"
    by (simp add: answering_def)
  have success: "PutObject ?env example_client example_ctx ''test-bucket'' ''test-file''
                   hello_reader ''test.txt'' 0 = (Inr ?result, 1)"
    by (simp add: PutObject_def request_eval fixture_eval hello_reader_def header_eval
          upload_eval extract_URLs_def scan_line_def fields_eval)
  have body: "content (RespBody uploaded) = upload_body"
    by (simp add: uploaded_def)
  have found: "Contains upload_body previewLabel"
    by (simp add: upload_eval)
  have lines_p: "labelled_lines previewLabel upload_body \<noteq> []"
    by (simp add: labelled_lines_def upload_eval fields_eval)
  have lines_t: "labelled_lines thumbnailLabel upload_body \<noteq> []"
    by (simp add: labelled_lines_def upload_eval fields_eval)
  note t = PutObject_links [OF drawn built exchange success]
  have p: "last (Fields (last (labelled_lines previewLabel upload_body)))
      = ''http://127.0.0.1:3000/api/test-bucket/test-file''"
    using t [THEN conjunct1] body found lines_p by simp
  have th: "last (Fields (last (labelled_lines thumbnailLabel upload_body)))
      = ''http://127.0.0.1:3000/thumb/test-bucket/test-file''"
    using t [THEN conjunct2, THEN conjunct1] body found lines_t by simp
  show ?thesis
    using success p th by blast
qed

text \<open>
  C4 as it is stated fails. The first answer below has a line with the thumbnail label,
  whose last field is a URL, and no preview label: the thumbnail URL of the result is
  empty. The second has a line with the preview label that is one field: the preview URL
  of the result is empty.
\<close>

theorem PutObject_thumbnail_without_preview:
  "Contains (content (RespBody thumbnail_only)) thumbnailLabel
   \<and> Split (content (RespBody thumbnail_only)) (CHR 0x0A) = [content (RespBody thumbnail_only)]
   \<and> last (Fields (content (RespBody thumbnail_only)))
     = ''http://127.0.0.1:3000/thumb/test-bucket/my-image''
   \<and> PutObject (answering thumbnail_only no_listing) example_client example_ctx ''test-bucket'' ''my-image''
       hello_reader ''example.jpg'' 0
     = (Inr \<lparr>Key_up = ''my-image'', ETag_up = quoted_etag, PreviewURL = [],
              ThumbnailURL = []\<rparr>, 1)
   \<and> Contains (content (RespBody glued_preview)) previewLabel
   \<and> Split (content (RespBody glued_preview)) (CHR 0x0A) = [content (RespBody glued_preview)]
   \<and> Fields (content (RespBody glued_preview)) = [content (RespBody glued_preview)]
   \<and> PutObject (answering glued_preview no_listing) example_client example_ctx ''test-bucket'' ''my-image''
       hello_reader ''example.jpg'' 0
     = (Inr \<lparr>Key_up = ''my-image'', ETag_up = quoted_etag, PreviewURL = [],
              ThumbnailURL = []\<rparr>, 1)"
  by (simp add: PutObject_def request_eval fixture_eval hello_reader_def header_eval
        upload_eval thumbnail_only_def glued_preview_def extract_URLs_def scan_line_def
        fields_eval)

subsection \<open>C5: the key and the ETag of an upload\<close>

lemma scan_line_keeps: "Key_up (scan_line r line) = Key_up r \<and> ETag_up (scan_line r line) = ETag_up r"
  by (simp add: scan_line_def Let_def)

lemma foldl_scan_line_keeps:
  "Key_up (foldl scan_line r ls) = Key_up r \<and> ETag_up (foldl scan_line r ls) = ETag_up r"
  by (induction ls arbitrary: r) (simp_all add: scan_line_keeps)

lemma extract_URLs_keeps:
  "Key_up (extract_URLs body r) = Key_up r \<and> ETag_up (extract_URLs body r) = ETag_up r"
  by (simp add: extract_URLs_def foldl_scan_line_keeps)

text \<open>
  C5. For every successful PutObject call the result has the requested object key as its
  Key and the value of the ETag header of the response (empty when the response has
  none) as its ETag. The call succeeds whenever the request was built, the response has
  status 200 and its body was read to the end.
\<close>

theorem PutObject_Key_and_ETag:
  assumes drawn: "randomBoundary env w = (boundary, w1)"
    and built: "PutObject_request env c ctx bucketName objectKey reader filename boundary = Inr req"
    and exchange: "Do env (httpClient c) req w1 = (Inr resp, w2)"
  shows
    "(PutObject env c ctx bucketName objectKey reader filename w = (Inr result, w') \<longrightarrow>
        Key_up result = objectKey \<and> ETag_up result = Header_Get (RespHeader resp) ''ETag'')
     \<and> (StatusCode resp = 200 \<and> failure (RespBody resp) = None \<longrightarrow>
        (\<exists>r. PutObject env c ctx bucketName objectKey reader filename w = (Inr r, w2)))"
  using drawn built exchange
  by (auto simp: PutObject_def ReadAll_def extract_URLs_keeps split: if_splits option.splits)

text \<open>The upload of \<^verbatim>\<open>hello.txt\<close>.\<close>

theorem PutObject_Key_and_ETag_example:
  "PutObject (answering uploaded no_listing) example_client example_ctx ''my-bucket'' ''hello.txt''
       hello_world ''hello.txt'' 0
     = (Inr \<lparr>Key_up = ''hello.txt'', ETag_up = Header_Get (RespHeader uploaded) ''ETag'',
              PreviewURL = ''http://127.0.0.1:3000/api/test-bucket/test-file'',
              ThumbnailURL = ''http://127.0.0.1:3000/thumb/test-bucket/test-file''\<rparr>, 1)
   \<and> Header_Get (RespHeader uploaded) ''ETag'' = quoted_etag"
proof -
  let ?env = "answering uploaded no_listing"
  let ?req = "projr (PutObject_request ?env example_client example_ctx ''my-bucket'' ''hello.txt''
                       hello_world ''hello.txt'' ''5a1f09c2'')"
  have drawn: "randomBoundary ?env 0 = (''5a1f09c2'', 0)"
    by (simp add: answering_def)
  have built: "PutObject_request ?env example_client example_ctx ''my-bucket'' ''hello.txt''
                 hello_world ''hello.txt'' ''5a1f09c2'' = Inr ?req"
    by (simp add: request_eval fixture_eval hello_world_def)
  have exchange: "Do ?env (httpClient example_client) ?req 0 = (Inr uploaded, 1)"
    by (simp add: answering_def)
  have ok: "StatusCode uploaded = 200 \<and> failure (RespBody uploaded) = None"
    by (simp add: uploaded_def)
  note t = PutObject_Key_and_ETag [OF drawn built exchange]
  from t [THEN conjunct2] ok obtain r where
    run: "PutObject ?env example_client example_ctx ''my-bucket'' ''hello.txt'' hello_world ''hello.txt'' 0
            = (Inr r, 1)"
    by blast
  have fields: "Key_up r = ''hello.txt'' \<and> ETag_up r = Header_Get (RespHeader uploaded) ''ETag''"
    using PutObject_Key_and_ETag [OF drawn built exchange, where result = r and w' = 1,
        THEN conjunct1] run by blast
  have links: "PreviewURL r = ''http://127.0.0.1:3000/api/test-bucket/test-file''
      \<and> ThumbnailURL r = ''http://127.0.0.1:3000/thumb/test-bucket/test-file''"
    using run
    by (auto simp: PutObject_def request_eval fixture_eval hello_world_def upload_eval
          extract_URLs_def scan_line_def fields_eval)
  have etag: "Header_Get (RespHeader uploaded) ''ETag'' = quoted_etag"
    by (simp add: header_eval uploaded_def)
  have "r = \<lparr>Key_up = ''hello.txt'', ETag_up = Header_Get (RespHeader uploaded) ''ETag'',
              PreviewURL = ''http://127.0.0.1:3000/api/test-bucket/test-file'',
              ThumbnailURL = ''http://127.0.0.1:3000/thumb/test-bucket/test-file''\<rparr>"
    using fields links by (cases r) simp
  with run etag show ?thesis by blast
qed

subsection \<open>C6: the size reported by HeadObject\<close>

text \<open>
  C6, as the code has it. For every successful HeadObject call the Size of the result is
  the \<^verbatim>\<open>ContentLength\<close> field of the response, whatever its headers are; it is not
  negative exactly when that field is not negative.
\<close>

theorem HeadObject_Size_is_ContentLength:
  assumes built: "HeadObject_request env c ctx bucketName objectKey = Inr req"
    and exchange: "Do env (httpClient c) req w = (Inr resp, w')"
    and success: "HeadObject env c ctx bucketName objectKey w = (Inr info, w'')"
  shows "Size info = ContentLength resp \<and> (0 \<le> Size info \<longleftrightarrow> 0 \<le> ContentLength resp)"
  using built exchange success
  by (auto simp: HeadObject_def split: if_splits)

text \<open>A response that declares 19 bytes.\<close>

theorem HeadObject_Size_is_ContentLength_example:
  "HeadObject (answering head_ok no_listing) example_client example_ctx ''test-bucket'' ''test-file'' 0
     = (Inr \<lparr>Key = ''test-file'', Name = [], ContentType = ''text/plain'',
              LastModified = \<lparr>year = 2015, month = 10, day = 21, hour = 7, minute = 28,
                               second = 0, nsec = 0\<rparr>,
              ETag = ''9b2cf535'', Size = 19\<rparr>, 1)
   \<and> ContentLength head_ok = 19"
proof -
  let ?env = "answering head_ok no_listing"
  let ?req = "projr (HeadObject_request ?env example_client example_ctx ''test-bucket'' ''test-file'')"
  let ?info = "\<lparr>Key = ''test-file'', Name = [], ContentType = ''text/plain'',
              LastModified = \<lparr>year = 2015, month = 10, day = 21, hour = 7, minute = 28,
                               second = 0, nsec = 0\<rparr>,
              ETag = ''9b2cf535'', Size = 19\<rparr>"
  have built: "HeadObject_request ?env example_client example_ctx ''test-bucket'' ''test-file'' = Inr ?req"
    by (simp add: request_eval fixture_eval)
  have exchange: "Do ?env (httpClient example_client) ?req 0 = (Inr head_ok, 1)"
    by (simp add: answering_def)
  have parsed: "time_Parse_TimeFormat ''Wed, 21 Oct 2015 07:28:00 GMT''
      = Some \<lparr>year = 2015, month = 10, day = 21, hour = 7, minute = 28, second = 0, nsec = 0\<rparr>"
    by (simp add: time_eval)
  have success: "HeadObject ?env example_client example_ctx ''test-bucket'' ''test-file'' 0 = (Inr ?info, 1)"
    by (simp add: HeadObject_def request_eval fixture_eval header_eval head_ok_def
          quoted_etag_def parsed Trim_def)
  have "Size ?info = ContentLength head_ok"
    using HeadObject_Size_is_ContentLength [OF built exchange success] by blast
  then have "ContentLength head_ok = 19" by simp
  with success show ?thesis by blast
qed

text \<open>
  C6 as it is stated fails: for a response that declares no length the call succeeds
  with the size \<^verbatim>\<open>-1\<close>.
\<close>

theorem HeadObject_Size_negative:
  "HeadObject (answering head_without_length no_listing) example_client example_ctx
       ''test-bucket'' ''test-file'' 0
     = (Inr \<lparr>Key = ''test-file'', Name = [], ContentType = ''text/plain'',
              LastModified = zeroTime, ETag = [], Size = - 1\<rparr>, 1)
   \<and> \<not> 0 \<le> Size (projr (fst (HeadObject (answering head_without_length no_listing)
                                 example_client example_ctx ''test-bucket'' ''test-file'' 0)))"
proof -
  have absent: "time_Parse_TimeFormat [] = None"
    by (simp add: time_eval)
  show ?thesis
    by (simp add: HeadObject_def request_eval fixture_eval header_eval head_without_length_def
          absent Trim_def)
qed

subsection \<open>C10: the Last-Modified header of HeadObject\<close>

text \<open>
  C10. Every HeadObject call whose response has status 200 succeeds. When the
  Last-Modified header is not a date in the HTTP format, and when the header is absent,
  the parse error is dropped and the LastModified of the result is the zero time.
\<close>

theorem HeadObject_ignores_bad_Last_Modified:
  assumes built: "HeadObject_request env c ctx bucketName objectKey = Inr req"
    and exchange: "Do env (httpClient c) req w = (Inr resp, w')"
    and ok: "StatusCode resp = 200"
  shows
    "\<exists>info. HeadObject env c ctx bucketName objectKey w = (Inr info, w')
       \<and> (time_Parse_TimeFormat (Header_Get (RespHeader resp) ''Last-Modified'') = None \<longrightarrow>
            LastModified info = zeroTime)
       \<and> (RespHeader resp (CanonicalMIMEHeaderKey ''Last-Modified'') = None \<longrightarrow>
            LastModified info = zeroTime)"
proof -
  have absent: "time_Parse_TimeFormat [] = None"
    by (simp add: time_eval)
  show ?thesis
    using built exchange ok absent
    by (auto simp: HeadObject_def Header_Get_def split: option.splits)
qed

text \<open>A response whose date is in another format, and a response without a date.\<close>

theorem HeadObject_ignores_bad_Last_Modified_example:
  "HeadObject (answering head_bad_date no_listing) example_client example_ctx ''test-bucket'' ''test-file'' 0
     = (Inr \<lparr>Key = ''test-file'', Name = [], ContentType = [], LastModified = zeroTime,
              ETag = [], Size = 19\<rparr>, 1)
   \<and> time_Parse_TimeFormat (Header_Get (RespHeader head_bad_date) ''Last-Modified'') = None
   \<and> LastModified (projr (fst (HeadObject (answering head_without_length no_listing)
                                 example_client example_ctx ''test-bucket'' ''test-file'' 0))) = zeroTime
   \<and> RespHeader head_without_length ''Last-Modified'' = None"
proof -
  let ?env = "answering head_bad_date no_listing"
  let ?req = "projr (HeadObject_request ?env example_client example_ctx ''test-bucket'' ''test-file'')"
  let ?env2 = "answering head_without_length no_listing"
  let ?req2 = "projr (HeadObject_request ?env2 example_client example_ctx ''test-bucket'' ''test-file'')"
  have key: "CanonicalMIMEHeaderKey ''Last-Modified'' = ''Last-Modified''"
    by (simp add: header_eval)
  have built: "HeadObject_request ?env example_client example_ctx ''test-bucket'' ''test-file'' = Inr ?req"
    by (simp add: request_eval fixture_eval)
  have exchange: "Do ?env (httpClient example_client) ?req 0 = (Inr head_bad_date, 1)"
    by (simp add: answering_def)
  have ok: "StatusCode head_bad_date = 200"
    by (simp add: head_bad_date_def head_without_length_def)
  have hdr: "Header_Get (RespHeader head_bad_date) ''Last-Modified'' = ''2015-10-21T07:28:00Z''"
    by (simp add: header_eval head_bad_date_def head_without_length_def)
  have bad: "time_Parse_TimeFormat ''2015-10-21T07:28:00Z'' = None"
    by (simp add: time_eval)
  from HeadObject_ignores_bad_Last_Modified [OF built exchange ok] hdr bad
  obtain info where run: "HeadObject ?env example_client example_ctx ''test-bucket'' ''test-file'' 0 = (Inr info, 1)"
    and zero: "LastModified info = zeroTime"
    by auto
  have rest: "Key info = ''test-file'' \<and> Name info = [] \<and> ContentType info = []
      \<and> ETag info = [] \<and> Size info = 19"
    using run
    by (auto simp: HeadObject_def request_eval fixture_eval header_eval head_bad_date_def
          head_without_length_def Trim_def)
  have first: "HeadObject ?env example_client example_ctx ''test-bucket'' ''test-file'' 0
     = (Inr \<lparr>Key = ''test-file'', Name = [], ContentType = [], LastModified = zeroTime,
              ETag = [], Size = 19\<rparr>, 1)"
    using run zero rest by (cases info) simp
  have built2: "HeadObject_request ?env2 example_client example_ctx ''test-bucket'' ''test-file'' = Inr ?req2"
    by (simp add: request_eval fixture_eval)
  have exchange2: "Do ?env2 (httpClient example_client) ?req2 0 = (Inr head_without_length, 1)"
    by (simp add: answering_def)
  have ok2: "StatusCode head_without_length = 200"
    by (simp add: head_bad_date_def head_without_length_def)
  have absent: "RespHeader head_without_length ''Last-Modified'' = None"
    by (simp add: head_bad_date_def head_without_length_def)
  from HeadObject_ignores_bad_Last_Modified [OF built2 exchange2 ok2] absent key
  obtain info2 where
    run2: "HeadObject ?env2 example_client example_ctx ''test-bucket'' ''test-file'' 0 = (Inr info2, 1)"
    and zero2: "LastModified info2 = zeroTime"
    by auto
  have second: "LastModified (projr (fst (HeadObject ?env2 example_client example_ctx
                   ''test-bucket'' ''test-file'' 0))) = zeroTime"
    using run2 zero2 by simp
  show ?thesis
    using first hdr bad second absent by simp
qed

subsection \<open>C3: what ListObjects returns\<close>

text \<open>
  C3, as the code has it. A successful ListObjects call returns exactly the
  \<^verbatim>\<open>Contents\<close> list that decoding the response body gives: the client removes no
  entry, adds none and moves none, whatever the prefix is. So the keys returned begin
  with the prefix, and for an empty prefix are all the keys of the bucket, only when the
  response of the server lists them so. The call succeeds whenever the response has
  status 200 and its body decodes.
\<close>

theorem ListObjects_returns_decoded_Contents:
  assumes built: "ListObjects_request env c ctx bucketName pre = Inr req"
    and exchange: "Do env (httpClient c) req w = (Inr resp, w')"
  shows
    "(ListObjects env c ctx bucketName pre w = (Inr objs, w'') \<longrightarrow>
        (\<exists>result. xml_Decode env (RespBody resp) = Inr result \<and> objs = Contents result))
     \<and> (StatusCode resp = 200 \<and> xml_Decode env (RespBody resp) = Inr result \<longrightarrow>
          ListObjects env c ctx bucketName pre w = (Inr (Contents result), w'))"
proof -
  have run: "ListObjects env c ctx bucketName pre w =
      (if StatusCode resp \<noteq> 200 then (Inl (status_error ''failed to list objects'' resp), w')
       else (case xml_Decode env (RespBody resp) of
               Inl e \<Rightarrow> (Inl (Errorf_w ''failed to parse response: '' e), w')
             | Inr result \<Rightarrow> (Inr (Contents result), w')))"
    using built exchange by (simp add: ListObjects_def)
  show ?thesis
    by (auto simp: run split: if_splits sum.splits)
qed

text \<open>The listing of three objects, asked for with the prefix \<^verbatim>\<open>photos/\<close>.\<close>

theorem ListObjects_returns_decoded_Contents_example:
  "ListObjects (answering listing listing_decode) example_client example_ctx ''test-bucket''
       ''photos/'' 0
     = (Inr (Contents \<lparr>Name_lb = ''test-bucket'', Prefix = ''photos/'',
                       Contents = [photo_a, doc_c, photo_b]\<rparr>), 1)
   \<and> xml_Decode (answering listing listing_decode) (RespBody listing)
     = Inr \<lparr>Name_lb = ''test-bucket'', Prefix = ''photos/'',
            Contents = [photo_a, doc_c, photo_b]\<rparr>"
proof -
  let ?env = "answering listing listing_decode"
  let ?req = "projr (ListObjects_request ?env example_client example_ctx ''test-bucket''
                       ''photos/'')"
  have built: "ListObjects_request ?env example_client example_ctx ''test-bucket'' ''photos/''
      = Inr ?req"
    by (simp add: request_eval fixture_eval)
  have exchange: "Do ?env (httpClient example_client) ?req 0 = (Inr listing, 1)"
    by (simp add: answering_def)
  have ok: "StatusCode listing = 200"
    by (simp add: listing_def)
  have decoded: "xml_Decode ?env (RespBody listing)
      = Inr \<lparr>Name_lb = ''test-bucket'', Prefix = ''photos/'', Contents = [photo_a, doc_c, photo_b]\<rparr>"
    by (simp add: answering_def listing_def listing_decode_def)
  note t = ListObjects_returns_decoded_Contents [OF built exchange,
      where result = "\<lparr>Name_lb = ''test-bucket'', Prefix = ''photos/'',
                        Contents = [photo_a, doc_c, photo_b]\<rparr>"]
  have listed: "ListObjects ?env example_client example_ctx ''test-bucket'' ''photos/'' 0
      = (Inr (Contents \<lparr>Name_lb = ''test-bucket'', Prefix = ''photos/'',
                        Contents = [photo_a, doc_c, photo_b]\<rparr>), 1)"
    using t [THEN conjunct2] ok decoded by blast
  show ?thesis
    using listed decoded by blast
qed

text \<open>
  C3 as it is stated fails: the client does not filter, so a key of the response that
  does not begin with the prefix is returned.
\<close>

theorem ListObjects_does_not_filter:
  "ListObjects (answering listing listing_decode) example_client example_ctx ''test-bucket''
       ''photos/'' 0
     = (Inr [photo_a, doc_c, photo_b], 1)
   \<and> Key doc_c = ''docs/c.txt''
   \<and> \<not> HasPrefix (Key doc_c) ''photos/''"
  by (simp add: ListObjects_def request_eval fixture_eval photo_a_def doc_c_def photo_b_def
        listing_decode_def listing_def Encode_prefix_def QueryEscape_def escape_byte_def
        unreserved_def upperhex_def byte_def)

subsection \<open>C9: PutObjectFromFile\<close>

lemma NewRequestWithContext_os_Open:
  "NewRequestWithContext (env\<lparr>os_Open := files\<rparr>) = NewRequestWithContext env"
  by (intro ext)
     (simp add: NewRequestWithContext_def cong: option.case_cong sum.case_cong)

lemma Head_os_Open: "Head (env\<lparr>os_Open := files\<rparr>) = Head env"
  by (intro ext)
     (simp add: Head_def NewRequestWithContext_os_Open cong: sum.case_cong)

lemma PutObject_request_os_Open:
  "PutObject_request (env\<lparr>os_Open := files\<rparr>) = PutObject_request env"
  by (intro ext)
     (simp add: PutObject_request_def NewRequestWithContext_os_Open
        cong: prod.case_cong option.case_cong)

lemma PutObject_os_Open: "PutObject (env\<lparr>os_Open := files\<rparr>) = PutObject env"
  by (intro ext)
     (simp add: PutObject_def PutObject_request_os_Open cong: prod.case_cong sum.case_cong)

text \<open>
  What \<^verbatim>\<open>filepath.Base\<close> gives: after the trailing slashes, the text after the last
  slash; the whole text when it has no other slash; a dot for the empty path and a slash
  for a path of slashes only.
\<close>

lemma Base_of_rev:
  assumes "name \<noteq> []" and "CHR ''/'' \<notin> set name"
  shows "rev (takeWhile (\<lambda>c. c \<noteq> CHR ''/'')
                (dropWhile (\<lambda>c. c = CHR ''/'') (replicate k (CHR ''/'') @ rev name @ rest)))
           = (if rest = [] \<or> hd rest = CHR ''/'' then name
              else rev (takeWhile (\<lambda>c. c \<noteq> CHR ''/'') rest) @ name)"
proof -
  obtain y ys where r: "rev name = y # ys"
    using assms(1) by (cases "rev name") auto
  then have "y \<in> set name"
    by (metis list.set_intros(1) set_rev)
  then have y: "y \<noteq> CHR ''/''"
    using assms(2) by auto
  have "dropWhile (\<lambda>c. c = CHR ''/'') (replicate k (CHR ''/'') @ rev name @ rest)
          = dropWhile (\<lambda>c. c = CHR ''/'') (rev name @ rest)"
    by (rule dropWhile_append2) simp
  also have "\<dots> = rev name @ rest"
    using r y by simp
  finally have d: "dropWhile (\<lambda>c. c = CHR ''/'') (replicate k (CHR ''/'') @ rev name @ rest)
          = rev name @ rest" .
  have t: "takeWhile (\<lambda>c. c \<noteq> CHR ''/'') (rev name @ rest)
          = rev name @ takeWhile (\<lambda>c. c \<noteq> CHR ''/'') rest"
    by (rule takeWhile_append2) (use assms(2) in auto)
  show ?thesis
    unfolding d t by (cases rest) auto
qed

lemma Base_last_element:
  assumes "name \<noteq> []" and "CHR ''/'' \<notin> set name"
  shows "Base (dir @ ''/'' @ name @ replicate k (CHR ''/'')) = name"
proof -
  have "rev (dir @ ''/'' @ name @ replicate k (CHR ''/''))
          = replicate k (CHR ''/'') @ rev name @ (CHR ''/'' # rev dir)"
    by simp
  then show ?thesis
    using Base_of_rev [OF assms, of k "CHR ''/'' # rev dir"] assms(1)
    by (simp add: Base_def)
qed

lemma Base_only_element:
  assumes "name \<noteq> []" and "CHR ''/'' \<notin> set name"
  shows "Base (name @ replicate k (CHR ''/'')) = name"
proof -
  have "rev (name @ replicate k (CHR ''/'')) = replicate k (CHR ''/'') @ rev name @ []"
    by simp
  then show ?thesis
    using Base_of_rev [OF assms, of k "[]"] assms(1)
    by (simp add: Base_def)
qed

lemma Base_slashes: "Base (replicate (Suc k) (CHR ''/'')) = ''/''"
proof -
  have "dropWhile (\<lambda>c. c = CHR ''/'') (replicate (Suc k) (CHR ''/'')) = []"
    by (simp del: replicate.simps)
  then show ?thesis
    by (simp add: Base_def del: replicate.simps)
qed

text \<open>
  C9. PutObjectFromFile never opens a local file: its result is the same whatever
  opening a file would give. It sends a HEAD request for the URL that \<open>filePath\<close>
  parses to, with the background context, no header and no body, through the default
  HTTP client and not through the client's own. When the path is no URL or the exchange
  fails, the call fails with that error. When the exchange succeeds, the call is the
  PutObject of the body of that response under the base name of \<open>filePath\<close>: the form
  of the upload has the one file part \<^verbatim>\<open>file\<close> with that name and those bytes. The
  base name is the last element of the path: the text after its last slash, trailing
  slashes apart; a dot for the empty path and a slash for a path of slashes only.
\<close>

theorem PutObjectFromFile_reads_over_HTTP:
  "PutObjectFromFile (env\<lparr>os_Open := files\<rparr>) c ctx bucketName objectKey filePath w
     = PutObjectFromFile env c ctx bucketName objectKey filePath w
   \<and> (url_Parse env filePath = Inl e \<longrightarrow>
        PutObjectFromFile env c ctx bucketName objectKey filePath w
          = (Inl (Errorf_w ''failed to open file: '' e), w))
   \<and> (url_Parse env filePath = Inr u
        \<and> Do env DefaultClient
             \<lparr>Ctx = Background, Method = ''HEAD'', URL = u\<lparr>Host := removeEmptyPort (Host u)\<rparr>,
              Header = Map.empty, Body = NoBody\<rparr> w
            = (Inl e, w1) \<longrightarrow>
        PutObjectFromFile env c ctx bucketName objectKey filePath w
          = (Inl (Errorf_w ''failed to open file: '' e), w1))
   \<and> (url_Parse env filePath = Inr u
        \<and> Do env DefaultClient
             \<lparr>Ctx = Background, Method = ''HEAD'', URL = u\<lparr>Host := removeEmptyPort (Host u)\<rparr>,
              Header = Map.empty, Body = NoBody\<rparr> w
            = (Inr file_resp, w1) \<longrightarrow>
        PutObjectFromFile env c ctx bucketName objectKey filePath w
          = PutObject env c ctx bucketName objectKey (RespBody file_resp) (Base filePath) w1
        \<and> (PutObject_request env c ctx bucketName objectKey (RespBody file_resp) (Base filePath)
               boundary = Inr req \<longrightarrow>
             Body req = MultipartBody boundary
                          [FormFile ''file'' (Base filePath) (content (RespBody file_resp))]))
   \<and> (name \<noteq> [] \<and> CHR ''/'' \<notin> set name \<longrightarrow>
        Base (dir @ ''/'' @ name @ replicate k (CHR ''/'')) = name
        \<and> Base (name @ replicate k (CHR ''/'')) = name)
   \<and> Base [] = ''.''
   \<and> Base (replicate (Suc k) (CHR ''/'')) = ''/''"
proof (intro conjI impI)
  show "PutObjectFromFile (env\<lparr>os_Open := files\<rparr>) c ctx bucketName objectKey filePath w
     = PutObjectFromFile env c ctx bucketName objectKey filePath w"
    by (simp add: PutObjectFromFile_def Head_os_Open PutObject_os_Open
          cong: prod.case_cong sum.case_cong)
next
  assume "url_Parse env filePath = Inl e"
  then show "PutObjectFromFile env c ctx bucketName objectKey filePath w
          = (Inl (Errorf_w ''failed to open file: '' e), w)"
    by (simp add: PutObjectFromFile_def Head_def NewRequestWithContext_def)
next
  assume "url_Parse env filePath = Inr u
        \<and> Do env DefaultClient
             \<lparr>Ctx = Background, Method = ''HEAD'', URL = u\<lparr>Host := removeEmptyPort (Host u)\<rparr>,
              Header = Map.empty, Body = NoBody\<rparr> w
            = (Inl e, w1)"
  then show "PutObjectFromFile env c ctx bucketName objectKey filePath w
          = (Inl (Errorf_w ''failed to open file: '' e), w1)"
    by (simp add: PutObjectFromFile_def Head_def NewRequestWithContext_def)
next
  assume "url_Parse env filePath = Inr u
        \<and> Do env DefaultClient
             \<lparr>Ctx = Background, Method = ''HEAD'', URL = u\<lparr>Host := removeEmptyPort (Host u)\<rparr>,
              Header = Map.empty, Body = NoBody\<rparr> w
            = (Inr file_resp, w1)"
  then show "PutObjectFromFile env c ctx bucketName objectKey filePath w
          = PutObject env c ctx bucketName objectKey (RespBody file_resp) (Base filePath) w1"
    by (simp add: PutObjectFromFile_def Head_def NewRequestWithContext_def)
next
  assume "PutObject_request env c ctx bucketName objectKey (RespBody file_resp) (Base filePath)
               boundary = Inr req"
  then show "Body req = MultipartBody boundary
                          [FormFile ''file'' (Base filePath) (content (RespBody file_resp))]"
    by (auto simp: PutObject_request_def ReadAll_def NewRequestWithContext_def addAuth_def
          split: option.splits sum.splits prod.splits)
next
  assume "name \<noteq> [] \<and> CHR ''/'' \<notin> set name"
  then show "Base (dir @ ''/'' @ name @ replicate k (CHR ''/'')) = name"
    using Base_last_element [of name dir k] by blast
next
  assume "name \<noteq> [] \<and> CHR ''/'' \<notin> set name"
  then show "Base (name @ replicate k (CHR ''/'')) = name"
    using Base_only_element [of name k] by blast
next
  show "Base [] = ''.''"
    by (simp add: Base_def)
next
  show "Base (replicate (Suc k) (CHR ''/'')) = ''/''"
    by (rule Base_slashes)
qed

text \<open>
  The path is the URL of a picture. The world ends with the two exchanges made: the HEAD
  request of the default client, and the upload of the client, whose form has the empty
  body of the answer under the name \<^verbatim>\<open>example.jpg\<close>.
\<close>

theorem PutObjectFromFile_reads_over_HTTP_example:
  "PutObjectFromFile file_server example_client example_ctx ''test-bucket'' ''my-image''
       ''http://files.example/pictures/example.jpg'' []
     = (Inr \<lparr>Key_up = ''my-image'', ETag_up = quoted_etag,
              PreviewURL = ''http://127.0.0.1:3000/api/test-bucket/test-file'',
              ThumbnailURL = ''http://127.0.0.1:3000/thumb/test-bucket/test-file''\<rparr>,
        [(DefaultClient,
          \<lparr>Ctx = Background, Method = ''HEAD'',
           URL = \<lparr>Scheme = ''http'', Host = ''files.example'', Path = ''/pictures/example.jpg'',
                  RawQuery = [], Fragment = []\<rparr>,
           Header = Map.empty, Body = NoBody\<rparr>),
         (httpClient example_client,
          \<lparr>Ctx = Background, Method = ''PUT'',
           URL = \<lparr>Scheme = ''http'', Host = ''127.0.0.1:3000'',
                  Path = ''/api/test-bucket/my-image'', RawQuery = [], Fragment = []\<rparr>,
           Header = [''Content-Type'' \<mapsto> [''multipart/form-data; boundary=5a1f09c2''],
                     ''Authorization'' \<mapsto> [''Bearer sssss''], ''X-Api-Key'' \<mapsto> [''sssss'']],
           Body = MultipartBody ''5a1f09c2'' [FormFile ''file'' ''example.jpg'' []]\<rparr>)])
   \<and> Base ''http://files.example/pictures/example.jpg'' = ''example.jpg''
   \<and> PutObjectFromFile
       (file_server\<lparr>os_Open := (\<lambda>path w. (Inl (ErrorString ''no such file''), w))\<rparr>)
       example_client example_ctx ''test-bucket'' ''my-image''
       ''http://files.example/pictures/example.jpg'' []
     = PutObjectFromFile file_server example_client example_ctx ''test-bucket'' ''my-image''
         ''http://files.example/pictures/example.jpg'' []"
proof -
  let ?path = "''http://files.example/pictures/example.jpg''"
  let ?u = "\<lparr>Scheme = ''http'', Host = ''files.example'', Path = ''/pictures/example.jpg'',
             RawQuery = [], Fragment = []\<rparr>"
  let ?head = "\<lparr>Ctx = Background, Method = ''HEAD'', URL = ?u, Header = Map.empty,
                Body = NoBody\<rparr>"
  note t = PutObjectFromFile_reads_over_HTTP
    [where env = file_server and c = example_client and ctx = example_ctx
       and bucketName = "''test-bucket''" and objectKey = "''my-image''" and filePath = ?path
       and w = "[]" and ?w1.0 = "[(DefaultClient, ?head)]" and u = ?u
       and file_resp = file_response
       and files = "\<lambda>path w. (Inl (ErrorString ''no such file''), w)"
       and name = "''example.jpg''" and dir = "''http://files.example/pictures''" and k = 0]
  have parses: "url_Parse file_server ?path = Inr ?u"
    by (simp add: file_server_def fixture_eval)
  have host: "?u\<lparr>Host := removeEmptyPort (Host ?u)\<rparr> = ?u"
    by (simp add: removeEmptyPort_def hasPort_def LastIndexByte_def)
  have head: "Do file_server DefaultClient ?head [] = (Inr file_response, [(DefaultClient, ?head)])"
    by (simp add: file_server_def)
  have name: "Base ?path = ''example.jpg''"
    using t [THEN conjunct2, THEN conjunct2, THEN conjunct2, THEN conjunct2, THEN conjunct1]
    by simp
  have a: "PutObjectFromFile file_server example_client example_ctx ''test-bucket''
             ''my-image'' ?path []
     = PutObject file_server example_client example_ctx ''test-bucket'' ''my-image''
         (RespBody file_response) ''example.jpg'' [(DefaultClient, ?head)]"
    using t [THEN conjunct2, THEN conjunct2, THEN conjunct2, THEN conjunct1] parses host head
      name
    by simp
  have b: "PutObject file_server example_client example_ctx ''test-bucket'' ''my-image''
         (RespBody file_response) ''example.jpg'' [(DefaultClient, ?head)]
     = (Inr \<lparr>Key_up = ''my-image'', ETag_up = quoted_etag,
              PreviewURL = ''http://127.0.0.1:3000/api/test-bucket/test-file'',
              ThumbnailURL = ''http://127.0.0.1:3000/thumb/test-bucket/test-file''\<rparr>,
        [(DefaultClient, ?head),
         (httpClient example_client,
          \<lparr>Ctx = Background, Method = ''PUT'',
           URL = \<lparr>Scheme = ''http'', Host = ''127.0.0.1:3000'',
                  Path = ''/api/test-bucket/my-image'', RawQuery = [], Fragment = []\<rparr>,
           Header = [''Content-Type'' \<mapsto> [''multipart/form-data; boundary=5a1f09c2''],
                     ''Authorization'' \<mapsto> [''Bearer sssss''], ''X-Api-Key'' \<mapsto> [''sssss'']],
           Body = MultipartBody ''5a1f09c2'' [FormFile ''file'' ''example.jpg'' []]\<rparr>)])"
    by (simp add: PutObject_def request_eval fixture_eval file_server_def file_response_def
          header_eval upload_eval extract_URLs_def scan_line_def fields_eval ReadAll_def
          FormDataContentType_def)
  show ?thesis
    using a b name t [THEN conjunct1] by simp
qed

end
